theory Spec2Isabelle
  imports Complex_Main "HOL-Library.Log_Nat"
begin

section \<open>Python values and exceptions\<close>

text \<open>
  Values as \<^verbatim>\<open>json.loads\<close> and the MongoDB driver hand them to the services. A Python
  \<^verbatim>\<open>str\<close> is a list of code points; the model keeps the code points below 256, one
  \<^typ>\<open>char\<close> each. Numbers (\<^verbatim>\<open>int\<close> and finite \<^verbatim>\<open>float\<close>) are exact rationals.
  A \<^verbatim>\<open>dict\<close> is an association list read with \<^const>\<open>map_of\<close>.
\<close>

datatype pyval =
    PNone
  | PBool bool
  | PNum rat
  | PStr string
  | PList "pyval list"
  | PDict "(string \<times> pyval) list"
  | PDatetime int

type_synonym pydict = "(string \<times> pyval) list"

text \<open>The exceptions the services raise and catch, each with its message.\<close>

datatype exn =
    ValueError string
  | TypeError string
  | KeyError string
  | ValidationError string
  | KafkaError string
  | KafkaTimeoutError string
  | OtherException string

fun exn_msg :: "exn \<Rightarrow> string" where
  "exn_msg (ValueError m) = m"
| "exn_msg (TypeError m) = m"
| "exn_msg (KeyError m) = m"
| "exn_msg (ValidationError m) = m"
| "exn_msg (KafkaError m) = m"
| "exn_msg (KafkaTimeoutError m) = m"
| "exn_msg (OtherException m) = m"

text \<open>\<^verbatim>\<open>str.encode('utf-8')\<close> on code points below 256.\<close>

definition utf8_char :: "char \<Rightarrow> nat list" where
  "utf8_char c =
     (let n = (of_char c :: nat)
      in if n < 128 then [n] else [192 + n div 64, 128 + n mod 64])"

definition encode_utf8 :: "string \<Rightarrow> nat list" where
  "encode_utf8 s = concat (map utf8_char s)"

section \<open>Python floats\<close>

text \<open>
  A \<^verbatim>\<open>float\<close> is an IEEE 754 binary64 number. A finite one is represented by its exact
  value; the infinities and nan stand beside them (the sign of a zero is not represented).
  An operation returns its exact result rounded to the nearest float, a tie to the even
  significand.
\<close>

datatype pyfloat =
    Finite rat
  | PosInf
  | NegInf
  | NaN

text \<open>The nearest integer, a tie to the even one.\<close>

definition round_half_even :: "rat \<Rightarrow> int" where
  "round_half_even q =
     (let f = \<lfloor>q\<rfloor>; r = q - of_int f
      in if r < 1 / 2 then f
         else if 1 / 2 < r then f + 1
         else if even f then f else f + 1)"

text \<open>
  The binary exponent of a positive number \<open>a\<close>, the \<open>k\<close> with \<open>2\<^sup>k \<le> a < 2\<^sup>k\<^sup>+\<^sup>1\<close>, from the
  bit lengths of its numerator and denominator.
\<close>

definition float_exponent :: "rat \<Rightarrow> int" where
  "float_exponent a =
     (let k = bitlen (fst (quotient_of a)) - bitlen (snd (quotient_of a))
      in if 2 powi k \<le> a then k else k - 1)"

text \<open>
  Rounding to binary64: 53 bits of significand, the least bit worth no less than
  \<open>2\<^sup>-\<^sup>1\<^sup>0\<^sup>7\<^sup>4\<close>, an infinity when the rounded value reaches \<open>2\<^sup>1\<^sup>0\<^sup>2\<^sup>4\<close>.
\<close>

definition float_round :: "rat \<Rightarrow> pyfloat" where
  "float_round x =
     (if x = 0 then Finite 0
      else let e = max (float_exponent \<bar>x\<bar> - 52) (- 1074);
               r = of_int (round_half_even (x / 2 powi e)) * 2 powi e
           in if 2 ^ 1024 \<le> r then PosInf
              else if r \<le> - (2 ^ 1024) then NegInf
              else Finite r)"

fun float_neg :: "pyfloat \<Rightarrow> pyfloat" where
  "float_neg (Finite a) = Finite (- a)"
| "float_neg PosInf = NegInf"
| "float_neg NegInf = PosInf"
| "float_neg NaN = NaN"

fun float_add :: "pyfloat \<Rightarrow> pyfloat \<Rightarrow> pyfloat" where
  "float_add (Finite a) (Finite b) = float_round (a + b)"
| "float_add NaN y = NaN"
| "float_add x NaN = NaN"
| "float_add PosInf NegInf = NaN"
| "float_add NegInf PosInf = NaN"
| "float_add PosInf y = PosInf"
| "float_add NegInf y = NegInf"
| "float_add x PosInf = PosInf"
| "float_add x NegInf = NegInf"

definition float_sub :: "pyfloat \<Rightarrow> pyfloat \<Rightarrow> pyfloat" where
  "float_sub x y = float_add x (float_neg y)"

text \<open>\<^verbatim>\<open>fabs\<close>, \<^verbatim>\<open>>=\<close> (false when an operand is nan) and \<^verbatim>\<open>isfinite\<close>.\<close>

fun float_abs :: "pyfloat \<Rightarrow> pyfloat" where
  "float_abs (Finite a) = Finite \<bar>a\<bar>"
| "float_abs PosInf = PosInf"
| "float_abs NegInf = PosInf"
| "float_abs NaN = NaN"

fun float_ge :: "pyfloat \<Rightarrow> pyfloat \<Rightarrow> bool" where
  "float_ge (Finite a) (Finite b) = (b \<le> a)"
| "float_ge NaN y = False"
| "float_ge x NaN = False"
| "float_ge PosInf y = True"
| "float_ge x NegInf = True"
| "float_ge x PosInf = False"
| "float_ge NegInf y = False"

fun is_finite :: "pyfloat \<Rightarrow> bool" where
  "is_finite (Finite a) = True"
| "is_finite x = False"

text \<open>
  The builtin \<^verbatim>\<open>sum\<close> over floats keeps a running total \<open>f\<close>. Up to CPython 3.11 it adds
  each item to the total. From CPython 3.12 on it also collects the rounding errors of
  these additions in a second float \<open>c\<close> (Neumaier's compensated summation) and adds \<open>c\<close> to
  the total at the end, unless \<open>c\<close> is zero or not finite. Which of the two the interpreter
  runs is the parameter \<open>compensated\<close>. The start value 0 is an \<^verbatim>\<open>int\<close>; adding the first
  float to it gives that float, as the first step from \<open>(0, 0)\<close> does.
\<close>

definition sum_step :: "bool \<Rightarrow> pyfloat \<times> pyfloat \<Rightarrow> pyfloat \<Rightarrow> pyfloat \<times> pyfloat" where
  "sum_step compensated acc x =
     (let f = fst acc; c = snd acc; t = float_add f x
      in if \<not> compensated then (t, c)
         else if float_ge (float_abs f) (float_abs x)
              then (t, float_add c (float_add (float_sub f t) x))
              else (t, float_add c (float_add (float_sub x t) f)))"

definition sum_result :: "bool \<Rightarrow> pyfloat \<times> pyfloat \<Rightarrow> pyfloat" where
  "sum_result compensated acc =
     (let f = fst acc; c = snd acc
      in if compensated \<and> c \<noteq> Finite 0 \<and> is_finite c then float_add f c else f)"

text \<open>
  The sum of a list of numbers read as floats: a float keeps its value, another number is
  converted to the nearest float.
\<close>

definition float_sum :: "bool \<Rightarrow> rat list \<Rightarrow> pyfloat" where
  "float_sum compensated xs =
     sum_result compensated
       (foldl (sum_step compensated) (Finite 0, Finite 0) (map float_round xs))"

text \<open>
  \<^verbatim>\<open>round(x, 2)\<close>: the exact value of \<open>x\<close> rounded to two decimals, a tie to the even
  neighbour, and then the float nearest to that decimal; an infinity or nan is returned as
  it is.
\<close>

definition round_decimal2 :: "rat \<Rightarrow> rat" where
  "round_decimal2 x = of_int (round_half_even (x * 100)) / 100"

fun py_round2 :: "pyfloat \<Rightarrow> pyfloat" where
  "py_round2 (Finite x) = float_round (round_decimal2 x)"
| "py_round2 x = x"

section \<open>The broker client of the producer\<close>

record record_metadata =
  rm_topic :: string
  rm_partition :: nat
  rm_offset :: nat

text \<open>
  What \<^verbatim>\<open>AIOKafkaProducer.send\<close> hands to the broker: the key after
  \<^verbatim>\<open>key_serializer\<close>, the value (its JSON text is not modelled), the topic and the
  requested partition.
\<close>

record wire_message =
  wm_topic :: string
  wm_key :: "nat list option"
  wm_value :: pyval
  wm_partition :: "nat option"

text \<open>The client object held in \<^verbatim>\<open>self.producer\<close>, with the messages it has accepted.\<close>

record aio_producer =
  ap_bootstrap_servers :: string
  ap_submitted :: "wire_message list"

text \<open>
  The broker's part in one send: \<^verbatim>\<open>send()\<close> itself raises, or it returns a future
  that resolves to the record metadata or to an exception.
\<close>

datatype broker_reply =
    Acked record_metadata
  | SendRaises exn
  | AckRaises exn

text \<open>\<^verbatim>\<open>key_serializer=lambda k: k.encode('utf-8') if k else None\<close>\<close>

definition key_serializer :: "string \<Rightarrow> nat list option" where
  "key_serializer k = (if k \<noteq> [] then Some (encode_utf8 k) else None)"

definition client_send ::
  "aio_producer \<Rightarrow> string \<Rightarrow> string \<Rightarrow> pyval \<Rightarrow> nat option \<Rightarrow> broker_reply
     \<Rightarrow> (exn + (exn + record_metadata)) \<times> aio_producer" where
  "client_send cl tp key val part reply =
     (let msg = \<lparr>wm_topic = tp, wm_key = key_serializer key, wm_value = val,
                  wm_partition = part\<rparr>;
          cl' = cl\<lparr>ap_submitted := ap_submitted cl @ [msg]\<rparr>
      in case reply of
           SendRaises e \<Rightarrow> (Inl e, cl)
         | Acked md \<Rightarrow> (Inr (Inr md), cl')
         | AckRaises e \<Rightarrow> (Inr (Inl e), cl'))"

section \<open>KafkaProducer\<close>

record kafka_producer =
  bootstrap_servers :: string
  topic :: string
  producer :: "aio_producer option"
  connected :: bool
  messages_sent :: nat
  messages_failed :: nat
  last_message_time :: "int option"

definition KafkaProducer_init :: "string \<Rightarrow> string \<Rightarrow> kafka_producer" where
  "KafkaProducer_init servers tp =
     \<lparr>bootstrap_servers = servers, topic = tp, producer = None, connected = False,
      messages_sent = 0, messages_failed = 0, last_message_time = None\<rparr>"

text \<open>
  What the environment does when a client is created and started: the constructor raises,
  \<^verbatim>\<open>start()\<close> raises, or the connection is made.
\<close>

datatype start_reply =
    Started
  | CtorRaises exn
  | StartRaises exn

definition KafkaProducer_start ::
  "start_reply \<Rightarrow> kafka_producer \<Rightarrow> (exn + unit) \<times> kafka_producer" where
  "KafkaProducer_start reply s =
     (let cl = \<lparr>ap_bootstrap_servers = bootstrap_servers s, ap_submitted = []\<rparr>
      in case reply of
           CtorRaises e \<Rightarrow> (Inl e, s\<lparr>connected := False\<rparr>)
         | StartRaises e \<Rightarrow> (Inl e, s\<lparr>producer := Some cl, connected := False\<rparr>)
         | Started \<Rightarrow> (Inr (), s\<lparr>producer := Some cl, connected := True\<rparr>))"

text \<open>
  \<^verbatim>\<open>stop\<close>: the argument is the exception that \<^verbatim>\<open>flush()\<close> or \<^verbatim>\<open>stop()\<close> of the
  client raises, if any; it is caught and logged.
\<close>

definition KafkaProducer_stop ::
  "exn option \<Rightarrow> kafka_producer \<Rightarrow> (exn + unit) \<times> kafka_producer" where
  "KafkaProducer_stop raised s =
     (case producer s of
        None \<Rightarrow> (Inr (), s\<lparr>connected := False\<rparr>)
      | Some cl \<Rightarrow>
          (case raised of
             None \<Rightarrow> (Inr (), s\<lparr>connected := False\<rparr>)
           | Some e \<Rightarrow> (Inr (), s\<lparr>connected := False\<rparr>)))"

definition is_connected :: "kafka_producer \<Rightarrow> bool" where
  "is_connected s = (connected s \<and> producer s \<noteq> None)"

text \<open>
  \<^verbatim>\<open>send_message\<close>; \<open>now\<close> is the reading of \<^verbatim>\<open>datetime.utcnow()\<close>. The three
  handlers are the source's, in its order.
\<close>

definition send_failed ::
  "exn \<Rightarrow> kafka_producer \<Rightarrow> (exn + record_metadata) \<times> kafka_producer" where
  "send_failed e s =
     (let s' = s\<lparr>messages_failed := messages_failed s + 1\<rparr>
      in case e of
           KafkaTimeoutError m \<Rightarrow> (Inl (KafkaError (''Timeout sending message: '' @ m)), s')
         | KafkaError m \<Rightarrow> (Inl (KafkaError m), s')
         | _ \<Rightarrow> (Inl (KafkaError (''Failed to send message: '' @ exn_msg e)), s'))"

definition send_message ::
  "int \<Rightarrow> broker_reply \<Rightarrow> kafka_producer \<Rightarrow> string \<Rightarrow> pyval \<Rightarrow> nat option
     \<Rightarrow> (exn + record_metadata) \<times> kafka_producer" where
  "send_message now reply s key val part =
     (case producer s of
        None \<Rightarrow> (Inl (ValueError ''Kafka producer is not connected''), s)
      | Some cl \<Rightarrow>
          if \<not> connected s then (Inl (ValueError ''Kafka producer is not connected''), s)
          else
            (case client_send cl (topic s) key val part reply of
               (Inl e, cl') \<Rightarrow> send_failed e (s\<lparr>producer := Some cl'\<rparr>)
             | (Inr (Inl e), cl') \<Rightarrow> send_failed e (s\<lparr>producer := Some cl'\<rparr>)
             | (Inr (Inr md), cl') \<Rightarrow>
                 (Inr md, s\<lparr>producer := Some cl',
                            messages_sent := messages_sent s + 1,
                            last_message_time := Some now\<rparr>)))"

text \<open>
  \<^verbatim>\<open>send_batch\<close>. The first loop calls \<^verbatim>\<open>send()\<close> for every message, outside any
  \<^verbatim>\<open>try\<close>; the second awaits the futures, each in its own \<^verbatim>\<open>try\<close>. The reply of the
  broker to the message at position \<open>i\<close> is \<open>replies i\<close>.
\<close>

fun send_batch_enqueue ::
  "aio_producer \<Rightarrow> string \<Rightarrow> (nat \<Rightarrow> broker_reply) \<Rightarrow> nat \<Rightarrow> (string \<times> pyval) list
     \<Rightarrow> (exn + (exn + record_metadata) list) \<times> aio_producer" where
  "send_batch_enqueue cl tp replies i [] = (Inr [], cl)"
| "send_batch_enqueue cl tp replies i ((key, val) # ms) =
     (case client_send cl tp key val None (replies i) of
        (Inl e, cl') \<Rightarrow> (Inl e, cl')
      | (Inr fut, cl') \<Rightarrow>
          (case send_batch_enqueue cl' tp replies (Suc i) ms of
             (Inl e, cl'') \<Rightarrow> (Inl e, cl'')
           | (Inr futs, cl'') \<Rightarrow> (Inr (fut # futs), cl'')))"

fun send_batch_collect ::
  "kafka_producer \<Rightarrow> (exn + record_metadata) list
     \<Rightarrow> record_metadata option list \<times> kafka_producer" where
  "send_batch_collect s [] = ([], s)"
| "send_batch_collect s (Inr md # futs) =
     (let (rs, s') = send_batch_collect (s\<lparr>messages_sent := messages_sent s + 1\<rparr>) futs
      in (Some md # rs, s'))"
| "send_batch_collect s (Inl e # futs) =
     (let (rs, s') = send_batch_collect (s\<lparr>messages_failed := messages_failed s + 1\<rparr>) futs
      in (None # rs, s'))"

definition send_batch ::
  "int \<Rightarrow> (nat \<Rightarrow> broker_reply) \<Rightarrow> kafka_producer \<Rightarrow> (string \<times> pyval) list
     \<Rightarrow> (exn + record_metadata option list) \<times> kafka_producer" where
  "send_batch now replies s messages =
     (case producer s of
        None \<Rightarrow> (Inl (ValueError ''Kafka producer is not connected''), s)
      | Some cl \<Rightarrow>
          if \<not> connected s then (Inl (ValueError ''Kafka producer is not connected''), s)
          else
            (case send_batch_enqueue cl (topic s) replies 0 messages of
               (Inl e, cl') \<Rightarrow> (Inl e, s\<lparr>producer := Some cl'\<rparr>)
             | (Inr futs, cl') \<Rightarrow>
                 (let (rs, s') = send_batch_collect (s\<lparr>producer := Some cl'\<rparr>) futs
                  in (Inr rs, s'\<lparr>last_message_time := Some now\<rparr>))))"

section \<open>pydantic validation\<close>

text \<open>
  pydantic (version 2, lax mode) accepts only a \<^verbatim>\<open>str\<close> for a \<^verbatim>\<open>str\<close> field. For a
  \<^verbatim>\<open>float\<close> or \<^verbatim>\<open>int\<close> field it accepts a number, and converts some other input
  (numeric strings, booleans); that conversion belongs to the library and is a parameter.
\<close>

record pydantic_lax =
  lax_float :: "pyval \<Rightarrow> rat option"
  lax_int :: "pyval \<Rightarrow> int option"

definition validate_str :: "pyval \<Rightarrow> string option" where
  "validate_str v = (case v of PStr s \<Rightarrow> Some s | _ \<Rightarrow> None)"

definition validate_float :: "pydantic_lax \<Rightarrow> pyval \<Rightarrow> rat option" where
  "validate_float lax v = (case v of PNum r \<Rightarrow> Some r | _ \<Rightarrow> lax_float lax v)"

definition validate_int :: "pydantic_lax \<Rightarrow> pyval \<Rightarrow> int option" where
  "validate_int lax v =
     (case v of
        PNum r \<Rightarrow> if of_int \<lfloor>r\<rfloor> = r then Some \<lfloor>r\<rfloor> else None
      | _ \<Rightarrow> lax_int lax v)"

text \<open>A required \<^verbatim>\<open>str\<close> field, and a required \<^verbatim>\<open>float\<close> field with \<^verbatim>\<open>gt=0\<close>.\<close>

definition required_str :: "pydict \<Rightarrow> string \<Rightarrow> string option" where
  "required_str d f = Option.bind (map_of d f) validate_str"

definition required_float :: "pydantic_lax \<Rightarrow> pydict \<Rightarrow> string \<Rightarrow> rat option" where
  "required_float lax d f = Option.bind (map_of d f) (validate_float lax)"

definition required_float_gt0 :: "pydantic_lax \<Rightarrow> pydict \<Rightarrow> string \<Rightarrow> rat option" where
  "required_float_gt0 lax d f =
     (case required_float lax d f of
        None \<Rightarrow> None
      | Some r \<Rightarrow> if r > 0 then Some r else None)"

subsection \<open>CustomerManagementAPI/data\_model/purchase.py\<close>

record purchase =
  username :: string
  user_id :: string
  item_name :: string
  price :: rat
  timestamp :: string

text \<open>\<^verbatim>\<open>Purchase(**purchase_data)\<close>: the call itself needs a mapping.\<close>

definition Purchase_fields :: "pydantic_lax \<Rightarrow> pydict \<Rightarrow> exn + purchase" where
  "Purchase_fields lax d =
     (case required_str d ''username'' of
        None \<Rightarrow> Inl (ValidationError ''username'')
      | Some u \<Rightarrow>
     (case required_str d ''user_id'' of
        None \<Rightarrow> Inl (ValidationError ''user_id'')
      | Some i \<Rightarrow>
     (case required_str d ''item_name'' of
        None \<Rightarrow> Inl (ValidationError ''item_name'')
      | Some n \<Rightarrow>
     (case required_float_gt0 lax d ''price'' of
        None \<Rightarrow> Inl (ValidationError ''price'')
      | Some p \<Rightarrow>
     (case required_str d ''timestamp'' of
        None \<Rightarrow> Inl (ValidationError ''timestamp'')
      | Some t \<Rightarrow>
          Inr \<lparr>username = u, user_id = i, item_name = n, price = p, timestamp = t\<rparr>)))))"

definition Purchase :: "pydantic_lax \<Rightarrow> pyval \<Rightarrow> exn + purchase" where
  "Purchase lax data =
     (case data of
        PDict d \<Rightarrow> Purchase_fields lax d
      | _ \<Rightarrow> Inl (TypeError ''argument after ** must be a mapping''))"

definition model_dump :: "purchase \<Rightarrow> pydict" where
  "model_dump p =
     [(''username'', PStr (username p)), (''user_id'', PStr (user_id p)),
      (''item_name'', PStr (item_name p)), (''price'', PNum (price p)),
      (''timestamp'', PStr (timestamp p))]"

text \<open>\<^verbatim>\<open>PurchaseResponse(Purchase)\<close> adds \<^verbatim>\<open>id\<close>, read from the key \<^verbatim>\<open>_id\<close> or, by name, \<^verbatim>\<open>id\<close>.\<close>

record purchase_response = purchase +
  pr_id :: string

definition aliased_id :: "pydict \<Rightarrow> string option" where
  "aliased_id d =
     (case map_of d ''_id'' of
        Some v \<Rightarrow> validate_str v
      | None \<Rightarrow> required_str d ''id'')"

definition PurchaseResponse :: "pydantic_lax \<Rightarrow> pydict \<Rightarrow> exn + purchase_response" where
  "PurchaseResponse lax d =
     (case Purchase_fields lax d of
        Inl e \<Rightarrow> Inl e
      | Inr p \<Rightarrow>
          (case aliased_id d of
             None \<Rightarrow> Inl (ValidationError ''_id'')
           | Some i \<Rightarrow> Inr (purchase.extend p (purchase_response.fields i))))"

record user_purchases_response =
  upr_user_id :: string
  upr_username :: "string option"
  total_purchases :: int
  total_spent :: pyfloat
  purchases :: "purchase_response list"

subsection \<open>CustomerFacingService/data\_model\<close>

text \<open>\<^verbatim>\<open>str.isspace\<close> on the code points below 256, and \<^verbatim>\<open>str.strip()\<close>.\<close>

definition is_space :: "char \<Rightarrow> bool" where
  "is_space c =
     (let n = (of_char c :: nat)
      in (9 \<le> n \<and> n \<le> 13) \<or> (28 \<le> n \<and> n \<le> 32) \<or> n = 133 \<or> n = 160)"

definition strip :: "string \<Rightarrow> string" where
  "strip s = rev (dropWhile is_space (rev (dropWhile is_space s)))"

record buy_request =
  br_username :: string
  br_user_id :: string

definition validate_username :: "string \<Rightarrow> exn + string" where
  "validate_username v =
     (if strip v = [] then Inl (ValueError ''Username cannot be empty or whitespace'')
      else Inr (strip v))"

definition validate_user_id :: "string \<Rightarrow> exn + string" where
  "validate_user_id v =
     (if strip v = [] then Inl (ValueError ''User ID cannot be empty or whitespace'')
      else Inr (strip v))"

text \<open>A required \<^verbatim>\<open>str\<close> field with \<^verbatim>\<open>min_length=1, max_length=100\<close>.\<close>

definition required_str_1_100 :: "pydict \<Rightarrow> string \<Rightarrow> string option" where
  "required_str_1_100 d f =
     (case required_str d f of
        None \<Rightarrow> None
      | Some s \<Rightarrow> if 1 \<le> length s \<and> length s \<le> 100 then Some s else None)"

text \<open>
  \<^verbatim>\<open>BuyRequest\<close> as the web framework builds it from the request body: the field
  constraints first, then the field validators.
\<close>

definition BuyRequest :: "pyval \<Rightarrow> exn + buy_request" where
  "BuyRequest body =
     (case body of
        PDict d \<Rightarrow>
          (case required_str_1_100 d ''username'' of
             None \<Rightarrow> Inl (ValidationError ''username'')
           | Some u \<Rightarrow>
          (case validate_username u of
             Inl e \<Rightarrow> Inl (ValidationError ''username'')
           | Inr u' \<Rightarrow>
          (case required_str_1_100 d ''user_id'' of
             None \<Rightarrow> Inl (ValidationError ''user_id'')
           | Some i \<Rightarrow>
          (case validate_user_id i of
             Inl e \<Rightarrow> Inl (ValidationError ''user_id'')
           | Inr i' \<Rightarrow> Inr \<lparr>br_username = u', br_user_id = i'\<rparr>))))
      | _ \<Rightarrow> Inl (ValidationError ''body''))"

record purchase_event =
  pe_username :: string
  pe_user_id :: string
  pe_item_name :: string
  pe_price :: rat
  pe_timestamp :: string

definition PurchaseEvent :: "pydantic_lax \<Rightarrow> pydict \<Rightarrow> exn + purchase_event" where
  "PurchaseEvent lax d =
     (case required_str d ''username'' of
        None \<Rightarrow> Inl (ValidationError ''username'')
      | Some u \<Rightarrow>
     (case required_str d ''user_id'' of
        None \<Rightarrow> Inl (ValidationError ''user_id'')
      | Some i \<Rightarrow>
     (case required_str d ''item_name'' of
        None \<Rightarrow> Inl (ValidationError ''item_name'')
      | Some n \<Rightarrow>
     (case required_float_gt0 lax d ''price'' of
        None \<Rightarrow> Inl (ValidationError ''price'')
      | Some p \<Rightarrow>
     (case required_str d ''timestamp'' of
        None \<Rightarrow> Inl (ValidationError ''timestamp'')
      | Some t \<Rightarrow>
          Inr \<lparr>pe_username = u, pe_user_id = i, pe_item_name = n, pe_price = p,
               pe_timestamp = t\<rparr>)))))"

definition pe_model_dump :: "purchase_event \<Rightarrow> pydict" where
  "pe_model_dump e =
     [(''username'', PStr (pe_username e)), (''user_id'', PStr (pe_user_id e)),
      (''item_name'', PStr (pe_item_name e)), (''price'', PNum (pe_price e)),
      (''timestamp'', PStr (pe_timestamp e))]"

record buy_response =
  success :: bool
  rsp_purchase :: purchase_event
  kafka_partition :: "nat option"
  kafka_offset :: "nat option"

section \<open>CustomerFacingService/main.py: the buy endpoint\<close>

datatype http_exception = HTTPException nat string

definition RANDOM_ITEMS :: "(string \<times> rat) list" where
  "RANDOM_ITEMS =
     [(''Laptop'', 99999 / 100), (''Smartphone'', 69999 / 100), (''Headphones'', 19999 / 100),
      (''Keyboard'', 8999 / 100), (''Mouse'', 4999 / 100), (''Monitor'', 34999 / 100),
      (''Tablet'', 49999 / 100), (''Smartwatch'', 29999 / 100), (''Camera'', 79999 / 100),
      (''Speaker'', 14999 / 100), (''USB Cable'', 1999 / 100), (''External SSD'', 12999 / 100),
      (''Webcam'', 7999 / 100), (''Gaming Console'', 49999 / 100), (''Router'', 15999 / 100)]"

text \<open>\<^verbatim>\<open>random.choice\<close>, with the random draw \<open>rnd\<close> as an argument.\<close>

definition select_random_item :: "nat \<Rightarrow> string \<times> rat" where
  "select_random_item rnd = RANDOM_ITEMS ! (rnd mod length RANDOM_ITEMS)"

text \<open>\<open>now_iso\<close> is \<^verbatim>\<open>datetime.utcnow().isoformat()\<close>.\<close>

definition generate_purchase_event ::
  "pydantic_lax \<Rightarrow> nat \<Rightarrow> string \<Rightarrow> buy_request \<Rightarrow> exn + purchase_event" where
  "generate_purchase_event lax rnd now_iso buy_request =
     (let item = select_random_item rnd
      in PurchaseEvent lax
           [(''username'', PStr (br_username buy_request)),
            (''user_id'', PStr (br_user_id buy_request)),
            (''item_name'', PStr (fst item)),
            (''price'', PNum (snd item)),
            (''timestamp'', PStr (now_iso @ ''Z''))])"

text \<open>
  \<^verbatim>\<open>buy\<close>, on the global \<^verbatim>\<open>kafka_producer\<close> (\<open>None\<close> before startup). The text of
  the response's \<^verbatim>\<open>message\<close> is not modelled.
\<close>

definition buy ::
  "pydantic_lax \<Rightarrow> nat \<Rightarrow> string \<Rightarrow> int \<Rightarrow> broker_reply \<Rightarrow> kafka_producer option
     \<Rightarrow> buy_request \<Rightarrow> (http_exception + buy_response) \<times> kafka_producer option" where
  "buy lax rnd now_iso now reply kp buy_request =
     (case kp of
        None \<Rightarrow>
          (Inl (HTTPException 503
             ''Purchase service temporarily unavailable (Kafka connection issue)''), kp)
      | Some s \<Rightarrow>
          if \<not> is_connected s then
            (Inl (HTTPException 503
               ''Purchase service temporarily unavailable (Kafka connection issue)''), kp)
          else
            (case generate_purchase_event lax rnd now_iso buy_request of
               Inl e \<Rightarrow> (Inl (HTTPException 500 ''Failed to process purchase request''), kp)
             | Inr ev \<Rightarrow>
                 (case send_message now reply s (pe_user_id ev) (PDict (pe_model_dump ev)) None of
                    (Inl e, s') \<Rightarrow>
                      (Inl (HTTPException 500 ''Failed to process purchase request''), Some s')
                  | (Inr md, s') \<Rightarrow>
                      (Inr \<lparr>success = True, rsp_purchase = ev,
                            kafka_partition = Some (rm_partition md),
                            kafka_offset = Some (rm_offset md)\<rparr>, Some s'))))"

section \<open>CustomerFacingService/main.py: the query gateway\<close>

text \<open>The gateway's own models (CustomerFacingService/data\_model/purchase.py).\<close>

record cf_purchase =
  cf_id :: string
  cf_username :: string
  cf_user_id :: string
  cf_item_name :: string
  cf_price :: rat
  cf_timestamp :: string

definition CF_Purchase :: "pydantic_lax \<Rightarrow> pydict \<Rightarrow> cf_purchase option" where
  "CF_Purchase lax d =
     (case aliased_id d of None \<Rightarrow> None | Some i \<Rightarrow>
     (case required_str d ''username'' of None \<Rightarrow> None | Some u \<Rightarrow>
     (case required_str d ''user_id'' of None \<Rightarrow> None | Some ui \<Rightarrow>
     (case required_str d ''item_name'' of None \<Rightarrow> None | Some n \<Rightarrow>
     (case required_float lax d ''price'' of None \<Rightarrow> None | Some p \<Rightarrow>
     (case required_str d ''timestamp'' of None \<Rightarrow> None | Some t \<Rightarrow>
        Some \<lparr>cf_id = i, cf_username = u, cf_user_id = ui, cf_item_name = n, cf_price = p,
              cf_timestamp = t\<rparr>))))))"

fun CF_Purchase_list :: "pydantic_lax \<Rightarrow> pyval list \<Rightarrow> cf_purchase list option" where
  "CF_Purchase_list lax [] = Some []"
| "CF_Purchase_list lax (PDict d # vs) =
     (case CF_Purchase lax d of
        None \<Rightarrow> None
      | Some p \<Rightarrow>
          (case CF_Purchase_list lax vs of None \<Rightarrow> None | Some ps \<Rightarrow> Some (p # ps)))"
| "CF_Purchase_list lax (v # vs) = None"

text \<open>An \<^verbatim>\<open>Optional[str] = None\<close> field.\<close>

definition optional_str :: "pydict \<Rightarrow> string \<Rightarrow> string option option" where
  "optional_str d f =
     (case map_of d f of
        None \<Rightarrow> Some None
      | Some PNone \<Rightarrow> Some None
      | Some (PStr s) \<Rightarrow> Some (Some s)
      | Some _ \<Rightarrow> None)"

record cf_user_purchases_response =
  cfr_user_id :: string
  cfr_username :: "string option"
  cfr_total_purchases :: int
  cfr_total_spent :: rat
  cfr_purchases :: "cf_purchase list"

definition CF_UserPurchasesResponse ::
  "pydantic_lax \<Rightarrow> pydict \<Rightarrow> cf_user_purchases_response option" where
  "CF_UserPurchasesResponse lax d =
     (case required_str d ''user_id'' of None \<Rightarrow> None | Some ui \<Rightarrow>
     (case optional_str d ''username'' of None \<Rightarrow> None | Some u \<Rightarrow>
     (case Option.bind (map_of d ''total_purchases'') (validate_int lax) of
        None \<Rightarrow> None | Some n \<Rightarrow>
     (case required_float lax d ''total_spent'' of None \<Rightarrow> None | Some t \<Rightarrow>
     (case map_of d ''purchases'' of
        Some (PList vs) \<Rightarrow>
          (case CF_Purchase_list lax vs of
             None \<Rightarrow> None
           | Some ps \<Rightarrow>
               Some \<lparr>cfr_user_id = ui, cfr_username = u, cfr_total_purchases = n,
                     cfr_total_spent = t, cfr_purchases = ps\<rparr>)
      | _ \<Rightarrow> None)))))"

text \<open>
  What the upstream call does: a response with its status code and the result of
  \<^verbatim>\<open>response.json()\<close> (\<open>None\<close> when that raises), \<^verbatim>\<open>httpx.TimeoutException\<close>,
  \<^verbatim>\<open>httpx.ConnectError\<close>, or any other exception.
\<close>

datatype upstream =
    Response nat "pyval option"
  | TimeoutException
  | ConnectError
  | RequestRaises exn

definition get_all_user_purchases ::
  "pydantic_lax \<Rightarrow> upstream \<Rightarrow> string \<Rightarrow> http_exception + cf_user_purchases_response" where
  "get_all_user_purchases lax up uid =
     (case up of
        Response code body \<Rightarrow>
          if code = 404 then
            Inl (HTTPException 404 (''No purchases found for user_id: '' @ uid))
          else if code \<noteq> 200 then
            Inl (HTTPException 503 ''Unable to retrieve purchases at this time'')
          else
            (case body of
               Some (PDict d) \<Rightarrow>
                 (case map_of d ''total_purchases'' of
                    None \<Rightarrow> Inl (HTTPException 500 ''Failed to retrieve purchase history'')
                  | Some n \<Rightarrow>
                      (case CF_UserPurchasesResponse lax d of
                         None \<Rightarrow> Inl (HTTPException 500 ''Failed to retrieve purchase history'')
                       | Some r \<Rightarrow> Inr r))
             | _ \<Rightarrow> Inl (HTTPException 500 ''Failed to retrieve purchase history''))
      | TimeoutException \<Rightarrow>
          Inl (HTTPException 503 ''Request timeout - Customer Management API not responding'')
      | ConnectError \<Rightarrow> Inl (HTTPException 503 ''Customer Management API unavailable'')
      | RequestRaises e \<Rightarrow> Inl (HTTPException 500 ''Failed to retrieve purchase history''))"

section \<open>DatabaseManager\<close>

text \<open>
  A stored document: the \<^verbatim>\<open>_id\<close> the store assigns (an ObjectId, as its text), the derived
  \<^verbatim>\<open>timestamp_dt\<close> (a point in time, as an integer), and the other fields as a dict.
\<close>

record document =
  doc_id :: string
  doc_timestamp_dt :: int
  doc_fields :: pydict

record database =
  collection :: "document list"

datatype insert_reply =
    Inserted string
  | InsertRaises exn

text \<open>\<^verbatim>\<open>.replace('Z', '+00:00')\<close>\<close>

definition replace_Z :: "string \<Rightarrow> string" where
  "replace_Z s = concat (map (\<lambda>c. if c = CHR ''Z'' then ''+00:00'' else [c]) s)"

text \<open>
  \<^verbatim>\<open>save_purchase\<close>; \<open>fromisoformat\<close> is \<^verbatim>\<open>datetime.fromisoformat\<close> (\<open>None\<close> when
  it raises \<^verbatim>\<open>ValueError\<close>) and \<open>reply\<close> is what \<^verbatim>\<open>insert_one\<close> does.
\<close>

definition save_purchase ::
  "(string \<Rightarrow> int option) \<Rightarrow> insert_reply \<Rightarrow> database \<Rightarrow> purchase
     \<Rightarrow> (exn + string) \<times> database" where
  "save_purchase fromisoformat reply db p =
     (let purchase_dict = model_dump p
      in case fromisoformat (replace_Z (timestamp p)) of
           None \<Rightarrow> (Inl (ValueError ''Invalid isoformat string''), db)
         | Some dt \<Rightarrow>
             (case reply of
                InsertRaises e \<Rightarrow> (Inl e, db)
              | Inserted oid \<Rightarrow>
                  (Inr oid,
                   db\<lparr>collection := collection db @
                      [\<lparr>doc_id = oid, doc_timestamp_dt = dt, doc_fields = purchase_dict\<rparr>]\<rparr>)))"

text \<open>
  The query \<^verbatim>\<open>find({"user_id": user_id}).sort("timestamp_dt", -1)\<close>: the documents whose
  \<^verbatim>\<open>user_id\<close> is the string (or an array holding it), by descending \<^verbatim>\<open>timestamp_dt\<close>.
\<close>

definition user_id_matches :: "string \<Rightarrow> document \<Rightarrow> bool" where
  "user_id_matches uid d =
     (case map_of (doc_fields d) ''user_id'' of
        Some (PStr s) \<Rightarrow> s = uid
      | Some (PList vs) \<Rightarrow> PStr uid \<in> set vs
      | _ \<Rightarrow> False)"

definition find_sorted :: "database \<Rightarrow> string \<Rightarrow> document list" where
  "find_sorted db uid =
     sort_key (\<lambda>d. - doc_timestamp_dt d) (filter (user_id_matches uid) (collection db))"

text \<open>The dict the driver returns for a document, after \<^verbatim>\<open>purchase["_id"] = str(...)\<close>.\<close>

definition doc_dict :: "document \<Rightarrow> pydict" where
  "doc_dict d =
     (''_id'', PStr (doc_id d)) # (''timestamp_dt'', PDatetime (doc_timestamp_dt d)) #
       doc_fields d"

definition DatabaseManager_get_user_purchases ::
  "exn option \<Rightarrow> database \<Rightarrow> string \<Rightarrow> exn + pydict list" where
  "DatabaseManager_get_user_purchases raised db uid =
     (case raised of
        Some e \<Rightarrow> Inl e
      | None \<Rightarrow> Inr (map doc_dict (find_sorted db uid)))"

section \<open>CustomerManagementAPI/main.py: the history endpoint\<close>

text \<open>
  \<^verbatim>\<open>sum(p["price"] for p in purchases)\<close>, from the left, starting at 0. A price is read as
  a float (\<^const>\<open>float_round\<close> keeps a float as it is); \<open>acc\<close> is the state of the sum.
\<close>

fun sum_prices :: "bool \<Rightarrow> pyfloat \<times> pyfloat \<Rightarrow> pydict list \<Rightarrow> exn + pyfloat" where
  "sum_prices compensated acc [] = Inr (sum_result compensated acc)"
| "sum_prices compensated acc (p # ps) =
     (case map_of p ''price'' of
        None \<Rightarrow> Inl (KeyError ''price'')
      | Some (PNum r) \<Rightarrow> sum_prices compensated (sum_step compensated acc (float_round r)) ps
      | Some (PBool b) \<Rightarrow>
          sum_prices compensated (sum_step compensated acc (Finite (if b then 1 else 0))) ps
      | Some _ \<Rightarrow> Inl (TypeError ''unsupported operand type(s) for +''))"

text \<open>\<^verbatim>\<open>purchases[0].get("username", "Unknown") if purchases else "Unknown"\<close>\<close>

definition newest_username :: "pydict list \<Rightarrow> pyval" where
  "newest_username ps =
     (case ps of
        [] \<Rightarrow> PStr ''Unknown''
      | first # rest \<Rightarrow>
          (case map_of first ''username'' of
             None \<Rightarrow> PStr ''Unknown''
           | Some v \<Rightarrow> v))"

fun PurchaseResponse_list :: "pydantic_lax \<Rightarrow> pydict list \<Rightarrow> exn + purchase_response list" where
  "PurchaseResponse_list lax [] = Inr []"
| "PurchaseResponse_list lax (p # ps) =
     (case PurchaseResponse lax p of
        Inl e \<Rightarrow> Inl e
      | Inr r \<Rightarrow>
          (case PurchaseResponse_list lax ps of
             Inl e \<Rightarrow> Inl e
           | Inr rs \<Rightarrow> Inr (r # rs)))"

text \<open>
  The endpoint; \<open>raised\<close> is what the query raises, if it does, and \<open>compensated\<close> tells
  which \<^verbatim>\<open>sum\<close> the interpreter has.
\<close>

definition get_user_purchases ::
  "pydantic_lax \<Rightarrow> bool \<Rightarrow> exn option \<Rightarrow> database \<Rightarrow> string
     \<Rightarrow> http_exception + user_purchases_response" where
  "get_user_purchases lax compensated raised db uid =
     (case DatabaseManager_get_user_purchases raised db uid of
        Inl e \<Rightarrow> Inl (HTTPException 500 ''Internal server error while retrieving purchases'')
      | Inr [] \<Rightarrow> Inl (HTTPException 404 (''No purchases found for user_id: '' @ uid))
      | Inr (first # rest) \<Rightarrow>
          (case sum_prices compensated (Finite 0, Finite 0) (first # rest) of
             Inl e \<Rightarrow> Inl (HTTPException 500 ''Internal server error while retrieving purchases'')
           | Inr total_sum \<Rightarrow>
               (let name = newest_username (first # rest)
                in case PurchaseResponse_list lax (first # rest) of
                     Inl e \<Rightarrow>
                       Inl (HTTPException 500 ''Internal server error while retrieving purchases'')
                   | Inr rs \<Rightarrow>
                       (case optional_str [(''username'', name)] ''username'' of
                          None \<Rightarrow>
                            Inl (HTTPException 500
                              ''Internal server error while retrieving purchases'')
                        | Some u \<Rightarrow>
                            Inr \<lparr>upr_user_id = uid, upr_username = u,
                                 total_purchases = int (length (first # rest)),
                                 total_spent = py_round2 total_sum,
                                 purchases = rs\<rparr>))))"

section \<open>KafkaConsumer\<close>

text \<open>A record as the topic holds it: the key and the value are the bytes that were sent.\<close>

record raw_record =
  rr_partition :: nat
  rr_offset :: nat
  rr_key :: "nat list option"
  rr_value :: "nat list"

text \<open>The record the client yields, its value deserialized.\<close>

record consumer_record =
  cr_partition :: nat
  cr_offset :: nat
  cr_key :: "nat list option"
  cr_value :: pyval

text \<open>
  \<^verbatim>\<open>value_deserializer=lambda m: json.loads(m.decode('utf-8'))\<close>. \<^verbatim>\<open>bytes.decode\<close> and
  \<^verbatim>\<open>json.loads\<close> belong to the library and are parameters; each gives its result or the
  exception it raises.
\<close>

record json_library =
  bytes_decode :: "nat list \<Rightarrow> exn + string"
  json_loads :: "string \<Rightarrow> exn + pyval"

definition value_deserializer :: "json_library \<Rightarrow> nat list \<Rightarrow> exn + pyval" where
  "value_deserializer lib m =
     (case bytes_decode lib m of
        Inl e \<Rightarrow> Inl e
      | Inr s \<Rightarrow> json_loads lib s)"

record aio_consumer =
  ac_topic :: string
  ac_group_id :: string

text \<open>
  One step of \<^verbatim>\<open>async for message in self.consumer\<close>: the client runs the deserializer
  while it builds the record it yields, and an exception of the deserializer is raised from
  the iteration.
\<close>

definition client_next :: "json_library \<Rightarrow> raw_record \<Rightarrow> exn + consumer_record" where
  "client_next lib r =
     (case value_deserializer lib (rr_value r) of
        Inl e \<Rightarrow> Inl e
      | Inr v \<Rightarrow>
          Inr \<lparr>cr_partition = rr_partition r, cr_offset = rr_offset r, cr_key = rr_key r,
               cr_value = v\<rparr>)"

record kafka_consumer =
  c_bootstrap_servers :: string
  c_topic :: string
  group_id :: string
  db_manager :: database
  consumer :: "aio_consumer option"
  running :: bool
  consumer_task :: bool
  messages_processed :: nat
  c_messages_failed :: nat
  c_last_message_time :: "int option"

definition KafkaConsumer_init :: "string \<Rightarrow> string \<Rightarrow> string \<Rightarrow> database \<Rightarrow> kafka_consumer" where
  "KafkaConsumer_init servers tp gid db =
     \<lparr>c_bootstrap_servers = servers, c_topic = tp, group_id = gid, db_manager = db,
      consumer = None, running = False, consumer_task = False,
      messages_processed = 0, c_messages_failed = 0, c_last_message_time = None\<rparr>"

text \<open>\<^verbatim>\<open>start\<close>: both handlers log and re-raise; neither touches \<^verbatim>\<open>self.running\<close>.\<close>

definition KafkaConsumer_start ::
  "start_reply \<Rightarrow> kafka_consumer \<Rightarrow> (exn + unit) \<times> kafka_consumer" where
  "KafkaConsumer_start reply s =
     (let cl = \<lparr>ac_topic = c_topic s, ac_group_id = group_id s\<rparr>
      in case reply of
           CtorRaises e \<Rightarrow> (Inl e, s)
         | StartRaises e \<Rightarrow> (Inl e, s\<lparr>consumer := Some cl\<rparr>)
         | Started \<Rightarrow>
             (Inr (), s\<lparr>consumer := Some cl, running := True, consumer_task := True\<rparr>))"

definition is_running :: "kafka_consumer \<Rightarrow> bool" where
  "is_running s = (running s \<and> consumer s \<noteq> None)"

definition get_lag :: "kafka_consumer \<Rightarrow> int" where
  "get_lag s = 0"

definition is_ValueError :: "exn \<Rightarrow> bool" where
  "is_ValueError e = (case e of ValueError m \<Rightarrow> True | ValidationError m \<Rightarrow> True | _ \<Rightarrow> False)"

definition process_failed :: "exn \<Rightarrow> kafka_consumer \<Rightarrow> kafka_consumer" where
  "process_failed e s =
     (if is_ValueError e then s\<lparr>c_messages_failed := c_messages_failed s + 1\<rparr>
      else s\<lparr>c_messages_failed := c_messages_failed s + 1\<rparr>)"

text \<open>
  \<^verbatim>\<open>_process_message\<close>; \<open>now\<close> is the clock reading and \<open>reply\<close> what \<^verbatim>\<open>insert_one\<close> does
  while the message is handled.
\<close>

definition process_message ::
  "pydantic_lax \<Rightarrow> (string \<Rightarrow> int option) \<Rightarrow> int \<Rightarrow> insert_reply \<Rightarrow> kafka_consumer
     \<Rightarrow> consumer_record \<Rightarrow> kafka_consumer" where
  "process_message lax fromisoformat now reply s message =
     (case Purchase lax (cr_value message) of
        Inl e \<Rightarrow> process_failed e s
      | Inr p \<Rightarrow>
          (case save_purchase fromisoformat reply (db_manager s) p of
             (Inl e, db') \<Rightarrow> process_failed e (s\<lparr>db_manager := db'\<rparr>)
           | (Inr purchase_id, db') \<Rightarrow>
               s\<lparr>db_manager := db',
                 messages_processed := messages_processed s + 1,
                 c_last_message_time := Some now\<rparr>))"

text \<open>
  One record of the stream as the poll loop meets it: the record of the topic, the clock
  reading and the reply of \<^verbatim>\<open>insert_one\<close> while the record is handled.
\<close>

record delivery =
  dl_record :: raw_record
  dl_now :: int
  dl_insert :: insert_reply

text \<open>
  \<^verbatim>\<open>_consume_loop\<close> over a finite stream. An exception raised from the iteration is caught
  by the handler around the loop, which logs it: the loop is over, and the records behind
  are not read. A record met while \<^verbatim>\<open>self.running\<close> is false ends the loop too.
\<close>

fun consume_loop ::
  "json_library \<Rightarrow> pydantic_lax \<Rightarrow> (string \<Rightarrow> int option) \<Rightarrow> kafka_consumer
     \<Rightarrow> delivery list \<Rightarrow> kafka_consumer" where
  "consume_loop lib lax fromisoformat s [] = s"
| "consume_loop lib lax fromisoformat s (dl # dls) =
     (case client_next lib (dl_record dl) of
        Inl e \<Rightarrow> s
      | Inr message \<Rightarrow>
          if \<not> running s then s
          else consume_loop lib lax fromisoformat
                 (process_message lax fromisoformat (dl_now dl) (dl_insert dl) s message) dls)"

text \<open>Whether the value of a record deserializes.\<close>

definition deserializes :: "json_library \<Rightarrow> delivery \<Rightarrow> bool" where
  "deserializes lib dl =
     (case client_next lib (dl_record dl) of Inl e \<Rightarrow> False | Inr message \<Rightarrow> True)"

text \<open>
  Whether a record ends in the store: its value deserializes and validates, its timestamp
  parses, the insert succeeds.
\<close>

definition persisted ::
  "json_library \<Rightarrow> pydantic_lax \<Rightarrow> (string \<Rightarrow> int option) \<Rightarrow> delivery \<Rightarrow> bool" where
  "persisted lib lax fromisoformat dl =
     (case client_next lib (dl_record dl) of
        Inl e \<Rightarrow> False
      | Inr message \<Rightarrow>
          (case Purchase lax (cr_value message) of
             Inl e \<Rightarrow> False
           | Inr p \<Rightarrow>
               (case fromisoformat (replace_Z (timestamp p)) of
                  None \<Rightarrow> False
                | Some dt \<Rightarrow>
                    (case dl_insert dl of Inserted oid \<Rightarrow> True | InsertRaises e \<Rightarrow> False))))"

text \<open>What a future of the client resolves to, for a message that \<^verbatim>\<open>send()\<close> accepted.\<close>

definition future_of :: "broker_reply \<Rightarrow> exn + record_metadata" where
  "future_of reply = (case reply of Acked md \<Rightarrow> Inr md | SendRaises e \<Rightarrow> Inl e | AckRaises e \<Rightarrow> Inl e)"

text \<open>
  The price a stored document carries, and the documents that \<^verbatim>\<open>save_purchase\<close> writes:
  the dump of a validated purchase.
\<close>

definition doc_price :: "document \<Rightarrow> rat" where
  "doc_price d = (case map_of (doc_fields d) ''price'' of Some (PNum r) \<Rightarrow> r | _ \<Rightarrow> 0)"

definition stored_purchase :: "document \<Rightarrow> purchase \<Rightarrow> bool" where
  "stored_purchase d p = (doc_fields d = model_dump p \<and> 0 < price p)"

section \<open>Sample data of the test suites\<close>

text \<open>A pydantic that converts nothing but numbers, and a parser that knows the sample times.\<close>

definition no_lax :: pydantic_lax where
  "no_lax = \<lparr>lax_float = (\<lambda>v. None), lax_int = (\<lambda>v. None)\<rparr>"

definition sample_fromisoformat :: "string \<Rightarrow> int option" where
  "sample_fromisoformat s =
     (if s = ''2025-12-15T10:00:00+00:00'' then Some 1765792800
      else if s = ''2025-12-15T10:30:00+00:00'' then Some 1765794600
      else if s = ''2025-12-15T11:00:00+00:00'' then Some 1765796400
      else None)"

definition sample_value :: pyval where
  "sample_value =
     PDict [(''username'', PStr ''test_user''), (''user_id'', PStr ''user_123''),
            (''item_name'', PStr ''Test Product''), (''price'', PNum (9999 / 100)),
            (''timestamp'', PStr ''2025-12-15T10:30:00Z'')]"

text \<open>
  The payloads of the sample stream, and a library that knows them: it decodes ASCII bytes
  and parses the two JSON texts.
\<close>

definition sample_text :: string where
  "sample_text =
     ''{\"username\": \"test_user\", \"user_id\": \"user_123\", '' @
     ''\"item_name\": \"Test Product\", \"price\": 99.99, '' @
     ''\"timestamp\": \"2025-12-15T10:30:00Z\"}''"

definition sample_json :: json_library where
  "sample_json =
     \<lparr>bytes_decode =
        (\<lambda>b. if list_all (\<lambda>n. n < 128) b then Inr (map char_of b)
             else Inl (ValueError ''invalid start byte'')),
      json_loads =
        (\<lambda>s. if s = sample_text then Inr sample_value
             else if s = ''{\"username\": \"test_user\"}''
             then Inr (PDict [(''username'', PStr ''test_user'')])
             else Inl (ValueError ''Expecting value: line 1 column 1 (char 0)''))\<rparr>"

definition sample_delivery :: "nat \<Rightarrow> string \<Rightarrow> insert_reply \<Rightarrow> delivery" where
  "sample_delivery off payload reply =
     \<lparr>dl_record = \<lparr>rr_partition = 0, rr_offset = off,
                    rr_key = Some (encode_utf8 ''user_123''), rr_value = encode_utf8 payload\<rparr>,
      dl_now = 1765794601, dl_insert = reply\<rparr>"

definition sample_stream :: "delivery list" where
  "sample_stream =
     [sample_delivery 42 sample_text (Inserted ''507f1f77bcf86cd799439011''),
      sample_delivery 43 ''{\"username\": \"test_user\"}'' (Inserted ''507f1f77bcf86cd799439012''),
      sample_delivery 44 ''not json'' (Inserted ''507f1f77bcf86cd799439013''),
      sample_delivery 45 sample_text (Inserted ''507f1f77bcf86cd799439014'')]"

definition sample_consumer :: kafka_consumer where
  "sample_consumer =
     KafkaConsumer_init ''localhost:9092'' ''test-purchases'' ''test-group'' \<lparr>collection = []\<rparr>"

definition sample_producer :: kafka_producer where
  "sample_producer = KafkaProducer_init ''localhost:9092'' ''test-purchases''"

definition sample_history_payload :: pydict where
  "sample_history_payload =
     [(''user_id'', PStr ''user_123''), (''username'', PStr ''john_doe''),
      (''total_purchases'', PNum 5), (''total_spent'', PNum (259995 / 100)),
      (''purchases'',
         PList [PDict [(''_id'', PStr ''507f1f77bcf86cd799439011''),
                       (''username'', PStr ''john_doe''), (''user_id'', PStr ''user_123''),
                       (''item_name'', PStr ''Laptop''), (''price'', PNum (99999 / 100)),
                       (''timestamp'', PStr ''2025-12-15T10:30:00Z'')]])]"

definition sample_history :: cf_user_purchases_response where
  "sample_history =
     \<lparr>cfr_user_id = ''user_123'', cfr_username = Some ''john_doe'', cfr_total_purchases = 5,
      cfr_total_spent = 259995 / 100,
      cfr_purchases =
        [\<lparr>cf_id = ''507f1f77bcf86cd799439011'', cf_username = ''john_doe'',
          cf_user_id = ''user_123'', cf_item_name = ''Laptop'', cf_price = 99999 / 100,
          cf_timestamp = ''2025-12-15T10:30:00Z''\<rparr>]\<rparr>"

text \<open>The scenario of the specification: two purchases of one user, 10.00 and then 20.00.\<close>

definition scenario_purchase :: "string \<Rightarrow> rat \<Rightarrow> string \<Rightarrow> purchase" where
  "scenario_purchase item amount ts =
     \<lparr>username = ''john_doe'', user_id = ''user_123'', item_name = item, price = amount,
      timestamp = ts\<rparr>"

definition scenario_db :: database where
  "scenario_db =
     snd (save_purchase sample_fromisoformat (Inserted ''507f1f77bcf86cd799439012'')
       (snd (save_purchase sample_fromisoformat (Inserted ''507f1f77bcf86cd799439011'')
          \<lparr>collection = []\<rparr>
          (scenario_purchase ''Mouse'' 10 ''2025-12-15T10:00:00Z'')))
       (scenario_purchase ''Keyboard'' 20 ''2025-12-15T11:00:00Z''))"


section \<open>Properties of the producer\<close>

lemma send_failed_counts:
  "isl (fst (send_failed e s)) \<and>
   messages_failed (snd (send_failed e s)) = messages_failed s + 1 \<and>
   messages_sent (snd (send_failed e s)) = messages_sent s \<and>
   last_message_time (snd (send_failed e s)) = last_message_time s"
  by (cases e) (simp_all add: send_failed_def)

text \<open>
  C3. A call of \<^verbatim>\<open>send_message\<close> on a producer that is not connected raises the
  not-connected \<^verbatim>\<open>ValueError\<close> and changes nothing. On a connected producer a call that
  fails, in \<^verbatim>\<open>send()\<close> or in the acknowledgement, by a timeout, a broker error or any
  other exception, raises and adds exactly one to \<^verbatim>\<open>messages_failed\<close> and nothing to
  \<^verbatim>\<open>messages_sent\<close>; an acknowledged call returns the metadata, adds exactly one to
  \<^verbatim>\<open>messages_sent\<close>, nothing to \<^verbatim>\<open>messages_failed\<close>, and records the time of the send.
\<close>

theorem send_message_counters:
  "(\<not> is_connected s \<longrightarrow>
      send_message now reply s key val part =
        (Inl (ValueError ''Kafka producer is not connected''), s)) \<and>
   (is_connected s \<longrightarrow>
      (case reply of
         Acked md \<Rightarrow>
           fst (send_message now reply s key val part) = Inr md \<and>
           messages_sent (snd (send_message now reply s key val part)) = messages_sent s + 1 \<and>
           messages_failed (snd (send_message now reply s key val part)) = messages_failed s \<and>
           last_message_time (snd (send_message now reply s key val part)) = Some now
       | _ \<Rightarrow>
           isl (fst (send_message now reply s key val part)) \<and>
           messages_failed (snd (send_message now reply s key val part)) = messages_failed s + 1 \<and>
           messages_sent (snd (send_message now reply s key val part)) = messages_sent s \<and>
           last_message_time (snd (send_message now reply s key val part)) = last_message_time s))"
proof (intro conjI impI)
  assume "\<not> is_connected s"
  then show "send_message now reply s key val part =
      (Inl (ValueError ''Kafka producer is not connected''), s)"
    by (auto simp: is_connected_def send_message_def split: option.splits)
next
  assume c: "is_connected s"
  then obtain cl where cl: "producer s = Some cl" and con: "connected s"
    by (auto simp: is_connected_def)
  show "case reply of
         Acked md \<Rightarrow>
           fst (send_message now reply s key val part) = Inr md \<and>
           messages_sent (snd (send_message now reply s key val part)) = messages_sent s + 1 \<and>
           messages_failed (snd (send_message now reply s key val part)) = messages_failed s \<and>
           last_message_time (snd (send_message now reply s key val part)) = Some now
       | _ \<Rightarrow>
           isl (fst (send_message now reply s key val part)) \<and>
           messages_failed (snd (send_message now reply s key val part)) = messages_failed s + 1 \<and>
           messages_sent (snd (send_message now reply s key val part)) = messages_sent s \<and>
           last_message_time (snd (send_message now reply s key val part)) = last_message_time s"
  proof (cases reply)
    case (Acked md)
    then show ?thesis
      using cl con by (simp add: send_message_def client_send_def)
  next
    case (SendRaises e)
    then show ?thesis
      using cl con send_failed_counts [of e "s\<lparr>producer := Some cl\<rparr>"]
      by (simp add: send_message_def client_send_def)
  next
    case (AckRaises e)
    then show ?thesis
      using cl con
        send_failed_counts [of e "s\<lparr>producer := Some (cl\<lparr>ap_submitted := ap_submitted cl @
           [\<lparr>wm_topic = topic s, wm_key = key_serializer key, wm_value = val,
             wm_partition = part\<rparr>]\<rparr>)\<rparr>"]
      by (simp add: send_message_def client_send_def Let_def)
  qed
qed

theorem send_message_counters_witness:
  "is_connected (snd (KafkaProducer_start Started (KafkaProducer_init ''localhost:9092'' ''purchases''))) \<and>
   \<not> is_connected (KafkaProducer_init ''localhost:9092'' ''purchases'') \<and>
   send_message 7 (Acked \<lparr>rm_topic = ''purchases'', rm_partition = 0, rm_offset = 1\<rparr>)
     (KafkaProducer_init ''localhost:9092'' ''purchases'') ''user_123'' (PDict []) None =
     (Inl (ValueError ''Kafka producer is not connected''),
      KafkaProducer_init ''localhost:9092'' ''purchases'') \<and>
   messages_sent (snd (send_message 7 (Acked \<lparr>rm_topic = ''purchases'', rm_partition = 0, rm_offset = 1\<rparr>)
     (snd (KafkaProducer_start Started (KafkaProducer_init ''localhost:9092'' ''purchases'')))
     ''user_123'' (PDict []) None)) = 1 \<and>
   messages_failed (snd (send_message 7 (AckRaises (KafkaTimeoutError ''Request timeout''))
     (snd (KafkaProducer_start Started (KafkaProducer_init ''localhost:9092'' ''purchases'')))
     ''user_123'' (PDict []) None)) = 1"
proof -
  let ?s0 = "KafkaProducer_init ''localhost:9092'' ''purchases''"
  let ?s1 = "snd (KafkaProducer_start Started ?s0)"
  let ?md = "\<lparr>rm_topic = ''purchases'', rm_partition = 0, rm_offset = 1\<rparr>"
  have c: "is_connected ?s1"
    by (simp add: is_connected_def KafkaProducer_start_def KafkaProducer_init_def)
  have n: "\<not> is_connected ?s0"
    by (simp add: is_connected_def KafkaProducer_init_def)
  have z: "messages_sent ?s1 = 0" "messages_failed ?s1 = 0"
    by (simp_all add: KafkaProducer_start_def KafkaProducer_init_def)
  have a: "send_message 7 (Acked ?md) ?s0 ''user_123'' (PDict []) None =
      (Inl (ValueError ''Kafka producer is not connected''), ?s0)"
    using send_message_counters [of ?s0 7 "Acked ?md" "''user_123''" "PDict []" None] n
    by blast
  have b: "messages_sent (snd (send_message 7 (Acked ?md) ?s1 ''user_123'' (PDict []) None)) = 1"
    using send_message_counters [of ?s1 7 "Acked ?md" "''user_123''" "PDict []" None] c z
    by simp
  have d: "messages_failed (snd (send_message 7 (AckRaises (KafkaTimeoutError ''Request timeout''))
      ?s1 ''user_123'' (PDict []) None)) = 1"
    using send_message_counters [of ?s1 7 "AckRaises (KafkaTimeoutError ''Request timeout'')"
        "''user_123''" "PDict []" None] c z
    by simp
  show ?thesis using c n a b d by blast
qed

text \<open>
  C9. \<^verbatim>\<open>stop\<close> returns without an exception from every state, also when the client's
  \<^verbatim>\<open>flush()\<close> or \<^verbatim>\<open>stop()\<close> raises, and leaves the producer not connected; a second
  \<^verbatim>\<open>stop\<close> returns without an exception and leaves the state of the first; on a producer
  whose \<^verbatim>\<open>connected\<close> flag is already false it changes nothing.
\<close>

theorem stop_idempotent:
  "fst (KafkaProducer_stop r1 s) = Inr () \<and>
   \<not> is_connected (snd (KafkaProducer_stop r1 s)) \<and>
   fst (KafkaProducer_stop r2 (snd (KafkaProducer_stop r1 s))) = Inr () \<and>
   snd (KafkaProducer_stop r2 (snd (KafkaProducer_stop r1 s))) = snd (KafkaProducer_stop r1 s) \<and>
   (\<not> connected s \<longrightarrow> KafkaProducer_stop r1 s = (Inr (), s))"
  by (auto simp: KafkaProducer_stop_def is_connected_def split: option.splits)

theorem stop_idempotent_witness:
  "\<not> connected (KafkaProducer_init ''localhost:9092'' ''purchases'') \<and>
   KafkaProducer_stop None (KafkaProducer_init ''localhost:9092'' ''purchases'') =
     (Inr (), KafkaProducer_init ''localhost:9092'' ''purchases'') \<and>
   snd (KafkaProducer_stop (Some (KafkaError ''closed''))
          (snd (KafkaProducer_stop None
             (snd (KafkaProducer_start Started (KafkaProducer_init ''localhost:9092'' ''purchases'')))))) =
     snd (KafkaProducer_stop None
        (snd (KafkaProducer_start Started (KafkaProducer_init ''localhost:9092'' ''purchases''))))"
proof -
  let ?s0 = "KafkaProducer_init ''localhost:9092'' ''purchases''"
  have n: "\<not> connected ?s0" by (simp add: KafkaProducer_init_def)
  show ?thesis
    using n stop_idempotent [of None ?s0 None]
      stop_idempotent [of None "snd (KafkaProducer_start Started ?s0)" "Some (KafkaError ''closed'')"]
    by blast
qed

text \<open>
  C8. When the client's constructor or its \<^verbatim>\<open>start()\<close> raises, \<^verbatim>\<open>KafkaProducer.start\<close>
  raises that exception and leaves the producer not connected, with nothing changed but the
  client handle and the \<^verbatim>\<open>connected\<close> flag, now false; \<^verbatim>\<open>KafkaConsumer.start\<close> on a
  consumer that is not running raises that exception and leaves the consumer not running,
  with nothing changed but the client handle.
\<close>

theorem failed_start_state:
  "(reply = CtorRaises e \<or> reply = StartRaises e \<longrightarrow>
      fst (KafkaProducer_start reply p) = Inl e \<and>
      \<not> connected (snd (KafkaProducer_start reply p)) \<and>
      \<not> is_connected (snd (KafkaProducer_start reply p)) \<and>
      (snd (KafkaProducer_start reply p))\<lparr>producer := producer p\<rparr> = p\<lparr>connected := False\<rparr>) \<and>
   ((reply = CtorRaises e \<or> reply = StartRaises e) \<and> \<not> running c \<longrightarrow>
      fst (KafkaConsumer_start reply c) = Inl e \<and>
      \<not> running (snd (KafkaConsumer_start reply c)) \<and>
      \<not> is_running (snd (KafkaConsumer_start reply c)) \<and>
      (snd (KafkaConsumer_start reply c))\<lparr>consumer := consumer c\<rparr> = c)"
  by (auto simp: KafkaProducer_start_def KafkaConsumer_start_def is_connected_def is_running_def)

theorem failed_start_state_witness:
  "\<not> running (KafkaConsumer_init ''localhost:9092'' ''purchases'' ''customer-management-group''
       \<lparr>collection = []\<rparr>) \<and>
   fst (KafkaProducer_start (StartRaises (KafkaError ''Connection refused''))
          (KafkaProducer_init ''localhost:9092'' ''purchases'')) =
     Inl (KafkaError ''Connection refused'') \<and>
   \<not> is_connected (snd (KafkaProducer_start (StartRaises (KafkaError ''Connection refused''))
          (KafkaProducer_init ''localhost:9092'' ''purchases''))) \<and>
   fst (KafkaConsumer_start (StartRaises (KafkaError ''Connection refused''))
          (KafkaConsumer_init ''localhost:9092'' ''purchases'' ''customer-management-group''
             \<lparr>collection = []\<rparr>)) =
     Inl (KafkaError ''Connection refused'') \<and>
   \<not> is_running (snd (KafkaConsumer_start (StartRaises (KafkaError ''Connection refused''))
          (KafkaConsumer_init ''localhost:9092'' ''purchases'' ''customer-management-group''
             \<lparr>collection = []\<rparr>)))"
proof -
  let ?c = "KafkaConsumer_init ''localhost:9092'' ''purchases'' ''customer-management-group''
       \<lparr>collection = []\<rparr>"
  have n: "\<not> running ?c" by (simp add: KafkaConsumer_init_def)
  show ?thesis
    using n failed_start_state [of "StartRaises (KafkaError ''Connection refused'')"
        "KafkaError ''Connection refused''" "KafkaProducer_init ''localhost:9092'' ''purchases''" ?c]
    by blast
qed

section \<open>Properties of send\_batch\<close>

lemma send_batch_collect_results:
  "fst (send_batch_collect s futs) = map (\<lambda>fut. case fut of Inl e \<Rightarrow> None | Inr md \<Rightarrow> Some md) futs \<and>
   messages_sent (snd (send_batch_collect s futs)) = messages_sent s + length (filter (\<lambda>fut. \<not> isl fut) futs) \<and>
   messages_failed (snd (send_batch_collect s futs)) = messages_failed s + length (filter isl futs)"
proof (induction futs arbitrary: s)
  case Nil
  then show ?case by simp
next
  case (Cons fut futs)
  show ?case
  proof (cases fut)
    case (Inl e)
    then show ?thesis
      using Cons.IH [of "s\<lparr>messages_failed := messages_failed s + 1\<rparr>"]
      by (simp add: case_prod_beta)
  next
    case (Inr md)
    then show ?thesis
      using Cons.IH [of "s\<lparr>messages_sent := messages_sent s + 1\<rparr>"]
      by (simp add: case_prod_beta)
  qed
qed

text \<open>
  C2. On a connected producer, \<^verbatim>\<open>send_batch\<close> is given the three messages of the test
  suite, and the client's \<^verbatim>\<open>send()\<close> raises for the second one (the first loop of
  \<^verbatim>\<open>send_batch\<close> has no \<^verbatim>\<open>try\<close>): the call raises that exception, returns no list of
  outcomes, and counts neither the accepted first message nor the failure.
\<close>

theorem send_batch_send_raises:
  "fst (send_batch 1765794601
          (\<lambda>i. if i = 1 then SendRaises (KafkaTimeoutError ''Unable to add message to the buffer'')
                else Acked \<lparr>rm_topic = ''test-purchases'', rm_partition = 0, rm_offset = i\<rparr>)
          (snd (KafkaProducer_start Started sample_producer))
          [(''user_1'', PDict [(''item'', PStr ''item1'')]),
           (''user_2'', PDict [(''item'', PStr ''item2'')]),
           (''user_3'', PDict [(''item'', PStr ''item3'')])]) =
     Inl (KafkaTimeoutError ''Unable to add message to the buffer'') \<and>
   messages_sent (snd (send_batch 1765794601
          (\<lambda>i. if i = 1 then SendRaises (KafkaTimeoutError ''Unable to add message to the buffer'')
                else Acked \<lparr>rm_topic = ''test-purchases'', rm_partition = 0, rm_offset = i\<rparr>)
          (snd (KafkaProducer_start Started sample_producer))
          [(''user_1'', PDict [(''item'', PStr ''item1'')]),
           (''user_2'', PDict [(''item'', PStr ''item2'')]),
           (''user_3'', PDict [(''item'', PStr ''item3'')])])) = 0 \<and>
   messages_failed (snd (send_batch 1765794601
          (\<lambda>i. if i = 1 then SendRaises (KafkaTimeoutError ''Unable to add message to the buffer'')
                else Acked \<lparr>rm_topic = ''test-purchases'', rm_partition = 0, rm_offset = i\<rparr>)
          (snd (KafkaProducer_start Started sample_producer))
          [(''user_1'', PDict [(''item'', PStr ''item1'')]),
           (''user_2'', PDict [(''item'', PStr ''item2'')]),
           (''user_3'', PDict [(''item'', PStr ''item3'')])])) = 0"
  by (simp add: send_batch_def KafkaProducer_start_def sample_producer_def KafkaProducer_init_def
      client_send_def Let_def)

lemma send_batch_ack_raises:
  "fst (send_batch 1765794601
          (\<lambda>i. if i = 1 then AckRaises (KafkaError ''Send failed'')
                else Acked \<lparr>rm_topic = ''test-purchases'', rm_partition = 0, rm_offset = i\<rparr>)
          (snd (KafkaProducer_start Started sample_producer))
          [(''user_1'', PDict [(''item'', PStr ''item1'')]),
           (''user_2'', PDict [(''item'', PStr ''item2'')]),
           (''user_3'', PDict [(''item'', PStr ''item3'')])]) =
     Inr [Some \<lparr>rm_topic = ''test-purchases'', rm_partition = 0, rm_offset = 0\<rparr>, None,
          Some \<lparr>rm_topic = ''test-purchases'', rm_partition = 0, rm_offset = 2\<rparr>]"
  by (simp add: send_batch_def KafkaProducer_start_def sample_producer_def KafkaProducer_init_def
      client_send_def Let_def)

lemma client_send_accepted:
  "\<forall>e. reply \<noteq> SendRaises e \<Longrightarrow>
   fst (client_send cl tp key val part reply) = Inr (future_of reply)"
  by (cases reply) (simp_all add: client_send_def future_of_def Let_def)

lemma send_batch_enqueue_accepted:
  "\<forall>j < length ms. \<forall>e. replies (i + j) \<noteq> SendRaises e \<Longrightarrow>
   fst (send_batch_enqueue cl tp replies i ms) =
     Inr (map (\<lambda>j. future_of (replies (i + j))) [0 ..< length ms])"
proof (induction ms arbitrary: cl i)
  case Nil
  then show ?case by simp
next
  case (Cons m ms)
  obtain key val where m: "m = (key, val)" by (cases m)
  have h: "\<forall>e. replies i \<noteq> SendRaises e"
    using Cons.prems by force
  have t: "\<forall>j < length ms. \<forall>e. replies (Suc i + j) \<noteq> SendRaises e"
    using Cons.prems by force
  obtain cl1 where c1: "client_send cl tp key val None (replies i) = (Inr (future_of (replies i)), cl1)"
    using client_send_accepted [of "replies i" cl tp key val None, OF h]
    by (cases "client_send cl tp key val None (replies i)") simp
  obtain cl2 where c2: "send_batch_enqueue cl1 tp replies (Suc i) ms =
      (Inr (map (\<lambda>j. future_of (replies (Suc i + j))) [0 ..< length ms]), cl2)"
    using Cons.IH [of "Suc i" cl1, OF t]
    by (cases "send_batch_enqueue cl1 tp replies (Suc i) ms") simp
  show ?case
    unfolding m using c1 c2 by (simp add: map_upt_Suc del: upt_Suc)
qed

lemma send_batch_when_accepted:
  assumes "is_connected s"
    and "\<forall>j < length ms. \<forall>e. replies j \<noteq> SendRaises e"
  shows "fst (send_batch now replies s ms) =
     Inr (map (\<lambda>j. case replies j of Acked md \<Rightarrow> Some md | _ \<Rightarrow> None) [0 ..< length ms])"
proof -
  obtain cl where cl: "producer s = Some cl" and con: "connected s"
    using assms(1) by (auto simp: is_connected_def)
  obtain cl' where e: "send_batch_enqueue cl (topic s) replies 0 ms =
      (Inr (map (\<lambda>j. future_of (replies j)) [0 ..< length ms]), cl')"
    using send_batch_enqueue_accepted [where ms = ms and i = 0 and replies = replies and cl = cl and tp = "topic s"] assms(2)
    by (cases "send_batch_enqueue cl (topic s) replies 0 ms") simp
  have f: "(\<lambda>j. case future_of (replies j) of Inl e \<Rightarrow> None | Inr md \<Rightarrow> Some md) =
      (\<lambda>j. case replies j of Acked md \<Rightarrow> Some md | _ \<Rightarrow> None)"
    by (rule ext) (simp add: future_of_def split: broker_reply.splits)
  show ?thesis
    using cl con e
      send_batch_collect_results [of "s\<lparr>producer := Some cl'\<rparr>"
        "map (\<lambda>j. future_of (replies j)) [0 ..< length ms]"]
    by (simp add: send_batch_def case_prod_beta comp_def f)
qed

section \<open>Properties of the buy endpoint\<close>

lemma RANDOM_ITEMS_prices: "\<forall>item \<in> set RANDOM_ITEMS. 0 < snd item"
  by (simp add: RANDOM_ITEMS_def)

lemma select_random_item_price: "0 < snd (select_random_item rnd)"
proof -
  have "rnd mod length RANDOM_ITEMS < length RANDOM_ITEMS"
    by (simp add: RANDOM_ITEMS_def)
  then have "select_random_item rnd \<in> set RANDOM_ITEMS"
    unfolding select_random_item_def by (rule nth_mem)
  then show ?thesis using RANDOM_ITEMS_prices by blast
qed

lemma generate_purchase_event_ok:
  "generate_purchase_event lax rnd now_iso br =
     Inr \<lparr>pe_username = br_username br, pe_user_id = br_user_id br,
          pe_item_name = fst (select_random_item rnd), pe_price = snd (select_random_item rnd),
          pe_timestamp = now_iso @ ''Z''\<rparr>"
  using select_random_item_price [of rnd]
  by (simp add: generate_purchase_event_def PurchaseEvent_def required_str_def
      required_float_gt0_def required_float_def validate_str_def validate_float_def Let_def)

lemma required_str_Some:
  "required_str d f = Some s \<longleftrightarrow> map_of d f = Some (PStr s)"
  by (cases "map_of d f")
    (auto simp: required_str_def validate_str_def split: pyval.splits)

lemma required_str_1_100_Some:
  "required_str_1_100 d f = Some s \<longleftrightarrow>
     map_of d f = Some (PStr s) \<and> 1 \<le> length s \<and> length s \<le> 100"
  unfolding required_str_1_100_def required_str_Some [symmetric]
  by (cases "required_str d f") auto

lemma BuyRequest_accepted:
  assumes "BuyRequest body = Inr br"
  shows "\<exists>d u i. body = PDict d \<and> map_of d ''username'' = Some (PStr u) \<and>
     map_of d ''user_id'' = Some (PStr i) \<and>
     br_username br = strip u \<and> br_user_id br = strip i \<and>
     strip u \<noteq> [] \<and> strip i \<noteq> [] \<and> length u \<le> 100 \<and> length i \<le> 100"
proof -
  obtain d where d: "body = PDict d"
    using assms by (cases body) (simp_all add: BuyRequest_def)
  obtain u where u: "required_str_1_100 d ''username'' = Some u"
    using assms d by (cases "required_str_1_100 d ''username''") (simp_all add: BuyRequest_def)
  have su: "strip u \<noteq> []"
    using assms d u by (auto simp: BuyRequest_def validate_username_def split: if_splits)
  obtain i where i: "required_str_1_100 d ''user_id'' = Some i"
    using assms d u su
    by (cases "required_str_1_100 d ''user_id''")
      (simp_all add: BuyRequest_def validate_username_def)
  have si: "strip i \<noteq> []"
    using assms d u su i
    by (auto simp: BuyRequest_def validate_username_def validate_user_id_def split: if_splits)
  have br: "br = \<lparr>br_username = strip u, br_user_id = strip i\<rparr>"
    using assms d u su i si
    by (simp add: BuyRequest_def validate_username_def validate_user_id_def)
  show ?thesis
    using d u i su si br by (auto simp: required_str_1_100_Some)
qed

lemma encode_utf8_ascii:
  "\<forall>c \<in> set s. (of_char c :: nat) < 128 \<Longrightarrow> encode_utf8 s = map of_char s"
  by (induction s) (simp_all add: encode_utf8_def utf8_char_def)

text \<open>
  C5. For every request that \<^verbatim>\<open>BuyRequest\<close> accepts and every call of \<^verbatim>\<open>buy\<close> on a
  connected producer, the purchase event carries the request's \<^verbatim>\<open>user_id\<close>, and the
  message handed to the broker, whenever the client accepts one, has as key the UTF-8 bytes
  of that \<^verbatim>\<open>user_id\<close>, which for an ASCII \<^verbatim>\<open>user_id\<close> are its characters' codes. The key is a
  function of the \<^verbatim>\<open>user_id\<close> alone, so events of one user carry one key. An acknowledged
  send returns a response whose purchase is this event.
\<close>

theorem buy_key_is_user_id:
  assumes "BuyRequest body = Inr br" and "is_connected s" and "producer s = Some cl"
  shows "\<exists>s' cl' ev.
     snd (buy lax rnd now_iso now reply (Some s) br) = Some s' \<and>
     producer s' = Some cl' \<and>
     generate_purchase_event lax rnd now_iso br = Inr ev \<and>
     pe_user_id ev = br_user_id br \<and>
     (case reply of
        SendRaises e \<Rightarrow> ap_submitted cl' = ap_submitted cl
      | _ \<Rightarrow>
          ap_submitted cl' = ap_submitted cl @
            [\<lparr>wm_topic = topic s, wm_key = Some (encode_utf8 (pe_user_id ev)),
              wm_value = PDict (pe_model_dump ev), wm_partition = None\<rparr>]) \<and>
     (\<forall>md. reply = Acked md \<longrightarrow>
        (\<exists>resp. fst (buy lax rnd now_iso now reply (Some s) br) = Inr resp \<and>
           rsp_purchase resp = ev)) \<and>
     ((\<forall>c \<in> set (pe_user_id ev). (of_char c :: nat) < 128) \<longrightarrow>
        encode_utf8 (pe_user_id ev) = map of_char (pe_user_id ev))"
proof -
  let ?ev = "\<lparr>pe_username = br_username br, pe_user_id = br_user_id br,
          pe_item_name = fst (select_random_item rnd), pe_price = snd (select_random_item rnd),
          pe_timestamp = now_iso @ ''Z''\<rparr>"
  have g: "generate_purchase_event lax rnd now_iso br = Inr ?ev"
    by (rule generate_purchase_event_ok)
  have ne: "br_user_id br \<noteq> []"
    using BuyRequest_accepted [OF assms(1)] by auto
  have con: "connected s"
    using assms(2) by (simp add: is_connected_def)
  show ?thesis
  proof (cases reply)
    case (Acked md)
    then show ?thesis
      using g ne con assms(2,3) encode_utf8_ascii [of "br_user_id br"]
      by (simp add: buy_def send_message_def client_send_def key_serializer_def Let_def)
  next
    case (SendRaises e)
    then show ?thesis
      using g ne con assms(2,3) encode_utf8_ascii [of "br_user_id br"]
        send_failed_counts [of e "s\<lparr>producer := Some cl\<rparr>"]
      by (cases e) (simp_all add: buy_def send_message_def client_send_def key_serializer_def Let_def send_failed_def)
  next
    case (AckRaises e)
    then show ?thesis
      using g ne con assms(2,3) encode_utf8_ascii [of "br_user_id br"]
      by (cases e) (simp_all add: buy_def send_message_def client_send_def key_serializer_def Let_def send_failed_def)
  qed
qed

theorem buy_key_is_user_id_witness:
  "BuyRequest (PDict [(''username'', PStr ''  test_user  ''), (''user_id'', PStr ''user_123'')]) =
     Inr \<lparr>br_username = ''test_user'', br_user_id = ''user_123''\<rparr> \<and>
   is_connected (snd (KafkaProducer_start Started sample_producer)) \<and>
   producer (snd (KafkaProducer_start Started sample_producer)) =
     Some \<lparr>ap_bootstrap_servers = ''localhost:9092'', ap_submitted = []\<rparr> \<and>
   (\<exists>s' cl' ev.
      snd (buy no_lax 0 ''2025-12-15T10:30:00'' 1765794601
             (Acked \<lparr>rm_topic = ''test-purchases'', rm_partition = 0, rm_offset = 1\<rparr>)
             (Some (snd (KafkaProducer_start Started sample_producer)))
             \<lparr>br_username = ''test_user'', br_user_id = ''user_123''\<rparr>) = Some s' \<and>
      producer s' = Some cl' \<and>
      pe_user_id ev = ''user_123'' \<and>
      ap_submitted cl' =
        [\<lparr>wm_topic = ''test-purchases'', wm_key = Some (encode_utf8 ''user_123''),
          wm_value = PDict (pe_model_dump ev), wm_partition = None\<rparr>])"
proof -
  let ?body = "PDict [(''username'', PStr ''  test_user  ''), (''user_id'', PStr ''user_123'')]"
  let ?br = "\<lparr>br_username = ''test_user'', br_user_id = ''user_123''\<rparr>"
  let ?s = "snd (KafkaProducer_start Started sample_producer)"
  let ?cl = "\<lparr>ap_bootstrap_servers = ''localhost:9092'', ap_submitted = []\<rparr>"
  have st: "strip ''  test_user  '' = ''test_user''" "strip ''user_123'' = ''user_123''"
    by (simp_all add: strip_def is_space_def)
  have h1: "BuyRequest ?body = Inr ?br"
    by (simp add: BuyRequest_def required_str_1_100_def required_str_def validate_str_def
        validate_username_def validate_user_id_def st)
  have h2: "is_connected ?s"
    by (simp add: is_connected_def KafkaProducer_start_def sample_producer_def
        KafkaProducer_init_def)
  have h3: "producer ?s = Some ?cl"
    by (simp add: KafkaProducer_start_def sample_producer_def KafkaProducer_init_def)
  have tp: "topic ?s = ''test-purchases''"
    by (simp add: KafkaProducer_start_def sample_producer_def KafkaProducer_init_def)
  show ?thesis
    using h1 h2 h3
      buy_key_is_user_id [OF h1 h2 h3, of no_lax 0 "''2025-12-15T10:30:00''" 1765794601
        "Acked \<lparr>rm_topic = ''test-purchases'', rm_partition = 0, rm_offset = 1\<rparr>"]
    unfolding tp by fastforce
qed

section \<open>Properties of the validators\<close>

lemma required_str_None: "map_of d f = None \<Longrightarrow> required_str d f = None"
  by (simp add: required_str_def)

lemma required_float_gt0_None: "map_of d f = None \<Longrightarrow> required_float_gt0 lax d f = None"
  by (simp add: required_float_gt0_def required_float_def)

lemma required_float_gt0_Some:
  "required_float_gt0 lax d f = Some r \<longleftrightarrow> required_float lax d f = Some r \<and> 0 < r"
  by (cases "required_float lax d f") (auto simp: required_float_gt0_def)

lemma required_float_PNum:
  "map_of d f = Some (PNum r) \<Longrightarrow> required_float lax d f = Some r"
  by (simp add: required_float_def validate_float_def)

lemma Purchase_fields_Inr:
  "Purchase_fields lax d = Inr p \<Longrightarrow>
   required_str d ''username'' = Some (username p) \<and>
   required_str d ''user_id'' = Some (user_id p) \<and>
   required_str d ''item_name'' = Some (item_name p) \<and>
   required_float_gt0 lax d ''price'' = Some (price p) \<and>
   required_str d ''timestamp'' = Some (timestamp p)"
  by (auto simp: Purchase_fields_def split: option.splits)

lemma PurchaseEvent_Inr:
  "PurchaseEvent lax d = Inr ev \<Longrightarrow>
   required_str d ''username'' = Some (pe_username ev) \<and>
   required_str d ''user_id'' = Some (pe_user_id ev) \<and>
   required_str d ''item_name'' = Some (pe_item_name ev) \<and>
   required_float_gt0 lax d ''price'' = Some (pe_price ev) \<and>
   required_str d ''timestamp'' = Some (pe_timestamp ev)"
  by (auto simp: PurchaseEvent_def split: option.splits)

lemma strip_all_space: "\<forall>c \<in> set s. is_space c \<Longrightarrow> strip s = []"
proof -
  assume a: "\<forall>c \<in> set s. is_space c"
  then have e: "dropWhile is_space s = []" by (induction s) auto
  show ?thesis unfolding strip_def e by simp
qed

lemma strip_decompose:
  "\<exists>a b. s = a @ strip s @ b \<and> (\<forall>c \<in> set a. is_space c) \<and> (\<forall>c \<in> set b. is_space c) \<and>
     (strip s \<noteq> [] \<longrightarrow> \<not> is_space (hd (strip s)) \<and> \<not> is_space (last (strip s)))"
proof -
  let ?a = "takeWhile is_space s"
  let ?m = "dropWhile is_space s"
  let ?b = "rev (takeWhile is_space (rev ?m))"
  have 1: "s = ?a @ ?m" by simp
  have 2: "?m = strip s @ ?b"
  proof -
    have "?m = rev (rev ?m)" by simp
    also have "\<dots> = rev (takeWhile is_space (rev ?m) @ dropWhile is_space (rev ?m))"
      by (simp only: takeWhile_dropWhile_id)
    also have "\<dots> = rev (dropWhile is_space (rev ?m)) @ rev (takeWhile is_space (rev ?m))"
      by (simp only: rev_append)
    finally show ?thesis by (simp only: strip_def)
  qed
  have 3: "\<forall>c \<in> set ?a. is_space c" by (meson set_takeWhileD)
  have 4: "\<forall>c \<in> set ?b. is_space c" by (metis set_rev set_takeWhileD)
  have 5: "strip s \<noteq> [] \<longrightarrow> \<not> is_space (last (strip s))"
  proof
    assume n: "strip s \<noteq> []"
    then have d: "dropWhile is_space (rev ?m) \<noteq> []" by (simp add: strip_def)
    have "last (strip s) = hd (dropWhile is_space (rev ?m))"
      using d by (simp add: strip_def last_rev)
    then show "\<not> is_space (last (strip s))"
      using d hd_dropWhile [of is_space "rev ?m"] by simp
  qed
  have 6: "strip s \<noteq> [] \<longrightarrow> \<not> is_space (hd (strip s))"
  proof
    assume n: "strip s \<noteq> []"
    then have m: "?m \<noteq> []" using 2 by (metis Nil_is_append_conv)
    have "hd ?m = hd (strip s)" using 2 n by (metis hd_append2)
    then show "\<not> is_space (hd (strip s))"
      using m hd_dropWhile [of is_space s] by simp
  qed
  show ?thesis using 1 2 3 4 5 6 by (metis append.assoc)
qed

lemma missing_field_rejected:
  assumes "f \<in> {''username'', ''user_id'', ''item_name'', ''price'', ''timestamp''}"
    and "map_of d f = None"
  shows "isl (Purchase lax (PDict d)) \<and> isl (PurchaseEvent lax d)"
proof -
  have a: "isl (Purchase_fields lax d)"
  proof (cases "Purchase_fields lax d")
    case (Inr p)
    then show ?thesis
      using Purchase_fields_Inr [OF Inr] assms required_str_None [OF assms(2)]
        required_float_gt0_None [OF assms(2), of lax]
      by auto
  qed simp
  have b: "isl (PurchaseEvent lax d)"
  proof (cases "PurchaseEvent lax d")
    case (Inr ev)
    then show ?thesis
      using PurchaseEvent_Inr [OF Inr] assms required_str_None [OF assms(2)]
        required_float_gt0_None [OF assms(2), of lax]
      by auto
  qed simp
  show ?thesis using a b by (simp add: Purchase_def)
qed

lemma nonpositive_price_rejected:
  assumes "required_float lax d ''price'' = Some r" and "r \<le> 0"
  shows "isl (Purchase lax (PDict d)) \<and> isl (PurchaseEvent lax d)"
proof -
  have n: "required_float_gt0 lax d ''price'' = None"
    using assms by (simp add: required_float_gt0_def)
  have a: "isl (Purchase_fields lax d)"
  proof (cases "Purchase_fields lax d")
    case (Inr p)
    then show ?thesis using Purchase_fields_Inr [OF Inr] n by simp
  qed simp
  have b: "isl (PurchaseEvent lax d)"
  proof (cases "PurchaseEvent lax d")
    case (Inr ev)
    then show ?thesis using PurchaseEvent_Inr [OF Inr] n by simp
  qed simp
  show ?thesis using a b by (simp add: Purchase_def)
qed

lemma BuyRequest_rejects:
  assumes "f \<in> {''username'', ''user_id''}"
    and "map_of d f = None \<or> (\<exists>s. map_of d f = Some (PStr s) \<and> (\<forall>c \<in> set s. is_space c))"
  shows "isl (BuyRequest (PDict d))"
proof (cases "BuyRequest (PDict d)")
  case (Inr br)
  obtain u i where ui: "map_of d ''username'' = Some (PStr u)" "map_of d ''user_id'' = Some (PStr i)"
    "strip u \<noteq> []" "strip i \<noteq> []"
    using BuyRequest_accepted [OF Inr] by auto
  have False
    using assms ui strip_all_space [of u] strip_all_space [of i] by auto
  then show ?thesis ..
qed simp

text \<open>
  Against C4 as stated: the consuming side's \<^verbatim>\<open>Purchase\<close> accepts a payload whose
  \<^verbatim>\<open>username\<close> is three blanks, and keeps it and the untrimmed \<^verbatim>\<open>user_id\<close> as they are.
\<close>

theorem Purchase_keeps_whitespace_counterexample:
  "Purchase no_lax
     (PDict [(''username'', PStr ''   ''), (''user_id'', PStr ''  user_123  ''),
             (''item_name'', PStr ''Laptop''), (''price'', PNum (99999 / 100)),
             (''timestamp'', PStr ''2025-12-15T10:30:00Z'')]) =
     Inr \<lparr>username = ''   '', user_id = ''  user_123  '', item_name = ''Laptop'',
          price = 99999 / 100, timestamp = ''2025-12-15T10:30:00Z''\<rparr> \<and>
   strip ''   '' = [] \<and> strip ''  user_123  '' = ''user_123''"
  by (simp add: Purchase_def Purchase_fields_def required_str_def required_float_gt0_def
      required_float_def validate_str_def validate_float_def strip_def is_space_def)

text \<open>
  C4, amended. \<^verbatim>\<open>Purchase\<close> (consuming side) and \<^verbatim>\<open>PurchaseEvent\<close> (producing side)
  reject a payload in which one of the five fields is missing or whose price is not
  positive, and keep \<^verbatim>\<open>username\<close> and \<^verbatim>\<open>user_id\<close> exactly as given. The rule on empty
  or whitespace-only \<^verbatim>\<open>username\<close> and \<^verbatim>\<open>user_id\<close>, and the trimming, belong to the
  producing side's request model only: \<^verbatim>\<open>BuyRequest\<close> rejects a body in which one of the
  two is missing or consists of whitespace, its accepted values are the inputs with leading
  and trailing whitespace removed (\<open>strip_decompose\<close>), and the event generated from an
  accepted request carries these trimmed values.
\<close>

theorem validation_rules:
  "(f \<in> {''username'', ''user_id'', ''item_name'', ''price'', ''timestamp''} \<and> map_of d f = None \<longrightarrow>
      isl (Purchase lax (PDict d)) \<and> isl (PurchaseEvent lax d)) \<and>
   (required_float lax d ''price'' = Some r \<and> r \<le> 0 \<longrightarrow>
      isl (Purchase lax (PDict d)) \<and> isl (PurchaseEvent lax d)) \<and>
   (map_of d ''price'' = Some (PNum r) \<and> r \<le> 0 \<longrightarrow>
      isl (Purchase lax (PDict d)) \<and> isl (PurchaseEvent lax d)) \<and>
   (Purchase lax (PDict d) = Inr p \<longrightarrow>
      map_of d ''username'' = Some (PStr (username p)) \<and>
      map_of d ''user_id'' = Some (PStr (user_id p)) \<and> 0 < price p) \<and>
   (PurchaseEvent lax d = Inr ev \<longrightarrow>
      map_of d ''username'' = Some (PStr (pe_username ev)) \<and>
      map_of d ''user_id'' = Some (PStr (pe_user_id ev)) \<and> 0 < pe_price ev) \<and>
   (g \<in> {''username'', ''user_id''} \<and>
      (map_of d g = None \<or> (\<exists>s. map_of d g = Some (PStr s) \<and> (\<forall>c \<in> set s. is_space c))) \<longrightarrow>
      isl (BuyRequest (PDict d))) \<and>
   (BuyRequest body = Inr br \<longrightarrow>
      (\<exists>d' u i. body = PDict d' \<and> map_of d' ''username'' = Some (PStr u) \<and>
         map_of d' ''user_id'' = Some (PStr i) \<and>
         br_username br = strip u \<and> br_user_id br = strip i) \<and>
      (\<exists>ev'. generate_purchase_event lax rnd now_iso br = Inr ev' \<and>
         pe_username ev' = br_username br \<and> pe_user_id ev' = br_user_id br))"
proof (intro conjI impI)
  assume h: "f \<in> {''username'', ''user_id'', ''item_name'', ''price'', ''timestamp''} \<and> map_of d f = None"
  note m = missing_field_rejected [OF conjunct1 [OF h] conjunct2 [OF h], of lax]
  show "isl (Purchase lax (PDict d))" by (rule conjunct1 [OF m])
  show "isl (PurchaseEvent lax d)" by (rule conjunct2 [OF m])
next
  assume h: "required_float lax d ''price'' = Some r \<and> r \<le> 0"
  note m = nonpositive_price_rejected [OF conjunct1 [OF h] conjunct2 [OF h]]
  show "isl (Purchase lax (PDict d))" by (rule conjunct1 [OF m])
  show "isl (PurchaseEvent lax d)" by (rule conjunct2 [OF m])
next
  assume h: "map_of d ''price'' = Some (PNum r) \<and> r \<le> 0"
  note m = nonpositive_price_rejected [OF required_float_PNum [OF conjunct1 [OF h]]
      conjunct2 [OF h], of lax]
  show "isl (Purchase lax (PDict d))" by (rule conjunct1 [OF m])
  show "isl (PurchaseEvent lax d)" by (rule conjunct2 [OF m])
next
  assume a: "Purchase lax (PDict d) = Inr p"
  then have "Purchase_fields lax d = Inr p" by (simp add: Purchase_def)
  note h = Purchase_fields_Inr [OF this]
  show "map_of d ''username'' = Some (PStr (username p))"
    using h by (simp add: required_str_Some)
  show "map_of d ''user_id'' = Some (PStr (user_id p))"
    using h by (simp add: required_str_Some)
  show "0 < price p"
    using h by (simp add: required_float_gt0_Some)
next
  assume a: "PurchaseEvent lax d = Inr ev"
  note h = PurchaseEvent_Inr [OF a]
  show "map_of d ''username'' = Some (PStr (pe_username ev))"
    using h by (simp add: required_str_Some)
  show "map_of d ''user_id'' = Some (PStr (pe_user_id ev))"
    using h by (simp add: required_str_Some)
  show "0 < pe_price ev"
    using h by (simp add: required_float_gt0_Some)
next
  assume h: "g \<in> {''username'', ''user_id''} \<and>
      (map_of d g = None \<or> (\<exists>s. map_of d g = Some (PStr s) \<and> (\<forall>c \<in> set s. is_space c)))"
  show "isl (BuyRequest (PDict d))"
    by (rule BuyRequest_rejects [OF conjunct1 [OF h] conjunct2 [OF h]])
next
  assume a: "BuyRequest body = Inr br"
  show "\<exists>d' u i. body = PDict d' \<and> map_of d' ''username'' = Some (PStr u) \<and>
         map_of d' ''user_id'' = Some (PStr i) \<and>
         br_username br = strip u \<and> br_user_id br = strip i"
    using BuyRequest_accepted [OF a] by blast
  show "\<exists>ev'. generate_purchase_event lax rnd now_iso br = Inr ev' \<and>
         pe_username ev' = br_username br \<and> pe_user_id ev' = br_user_id br"
    by (simp add: generate_purchase_event_ok)
qed

theorem validation_rules_witness:
  "map_of [(''username'', PStr ''test_user''), (''user_id'', PStr ''   ''),
           (''item_name'', PStr ''Test Product''), (''price'', PNum (- 10))] ''timestamp'' = None \<and>
   isl (Purchase no_lax (PDict [(''username'', PStr ''test_user''), (''user_id'', PStr ''   ''),
           (''item_name'', PStr ''Test Product''), (''price'', PNum (- 10))])) \<and>
   strip ''   '' = [] \<and>
   isl (BuyRequest (PDict [(''username'', PStr ''test_user''), (''user_id'', PStr ''   ''),
           (''item_name'', PStr ''Test Product''), (''price'', PNum (- 10))])) \<and>
   Purchase no_lax sample_value =
     Inr \<lparr>username = ''test_user'', user_id = ''user_123'', item_name = ''Test Product'',
          price = 9999 / 100, timestamp = ''2025-12-15T10:30:00Z''\<rparr> \<and>
   BuyRequest (PDict [(''username'', PStr ''  test_user  ''), (''user_id'', PStr ''user_123'')]) =
     Inr \<lparr>br_username = ''test_user'', br_user_id = ''user_123''\<rparr> \<and>
   (\<exists>ev. generate_purchase_event no_lax 0 ''2025-12-15T10:30:00''
            \<lparr>br_username = ''test_user'', br_user_id = ''user_123''\<rparr> = Inr ev \<and>
         pe_username ev = ''test_user'' \<and> pe_user_id ev = ''user_123'')"
proof -
  let ?dA = "[(''username'', PStr ''test_user''), (''user_id'', PStr ''   ''),
           (''item_name'', PStr ''Test Product''), (''price'', PNum (- 10))]"
  let ?dB = "[(''username'', PStr ''test_user''), (''user_id'', PStr ''user_123''),
            (''item_name'', PStr ''Test Product''), (''price'', PNum (9999 / 100)),
            (''timestamp'', PStr ''2025-12-15T10:30:00Z'')]"
  let ?pB = "\<lparr>username = ''test_user'', user_id = ''user_123'', item_name = ''Test Product'',
          price = 9999 / 100, timestamp = ''2025-12-15T10:30:00Z''\<rparr>"
  let ?evB = "\<lparr>pe_username = ''test_user'', pe_user_id = ''user_123'',
          pe_item_name = ''Test Product'', pe_price = 9999 / 100,
          pe_timestamp = ''2025-12-15T10:30:00Z''\<rparr>"
  let ?body = "PDict [(''username'', PStr ''  test_user  ''), (''user_id'', PStr ''user_123'')]"
  let ?br = "\<lparr>br_username = ''test_user'', br_user_id = ''user_123''\<rparr>"
  have a1: "''timestamp'' \<in> {''username'', ''user_id'', ''item_name'', ''price'', ''timestamp''} \<and>
      map_of ?dA ''timestamp'' = None"
    by simp
  have a2: "required_float no_lax ?dA ''price'' = Some (- 10) \<and> (- 10 :: rat) \<le> 0"
    by (simp add: required_float_def validate_float_def)
  have a3: "map_of ?dA ''price'' = Some (PNum (- 10)) \<and> (- 10 :: rat) \<le> 0"
    by simp
  have sp: "\<forall>c \<in> set ''   ''. is_space c"
    by (simp add: is_space_def)
  have a6: "''user_id'' \<in> {''username'', ''user_id''} \<and>
      (map_of ?dA ''user_id'' = None \<or>
       (\<exists>s. map_of ?dA ''user_id'' = Some (PStr s) \<and> (\<forall>c \<in> set s. is_space c)))"
    using sp by simp
  have b4: "Purchase no_lax (PDict ?dB) = Inr ?pB"
    by (simp add: Purchase_def Purchase_fields_def required_str_def required_float_gt0_def
        required_float_def validate_str_def validate_float_def)
  have b5: "PurchaseEvent no_lax ?dB = Inr ?evB"
    by (simp add: PurchaseEvent_def required_str_def required_float_gt0_def
        required_float_def validate_str_def validate_float_def)
  have st: "strip ''  test_user  '' = ''test_user''" "strip ''user_123'' = ''user_123''"
    by (simp_all add: strip_def is_space_def)
  have b7: "BuyRequest ?body = Inr ?br"
    by (simp add: BuyRequest_def required_str_1_100_def required_str_def validate_str_def
        validate_username_def validate_user_id_def st)
  note A = validation_rules [where f = "''timestamp''" and d = ?dA and lax = no_lax and
      r = "- 10" and g = "''user_id''" and body = ?body and br = ?br and rnd = 0 and
      now_iso = "''2025-12-15T10:30:00''" and p = ?pB and ev = ?evB]
  note B = validation_rules [where d = ?dB and lax = no_lax and p = ?pB and ev = ?evB and
      body = ?body and br = ?br and rnd = 0 and now_iso = "''2025-12-15T10:30:00''" and
      f = "''timestamp''" and r = "- 10" and g = "''user_id''"]
  have c1: "isl (Purchase no_lax (PDict ?dA))"
    by (rule conjunct1 [OF mp [OF conjunct1 [OF A] a1]])
  have c6: "isl (BuyRequest (PDict ?dA))"
    by (rule mp [OF A [THEN conjunct2, THEN conjunct2, THEN conjunct2, THEN conjunct2,
          THEN conjunct2, THEN conjunct1] a6])
  have c7: "\<exists>ev. generate_purchase_event no_lax 0 ''2025-12-15T10:30:00'' ?br = Inr ev \<and>
         pe_username ev = ''test_user'' \<and> pe_user_id ev = ''user_123''"
    using conjunct2 [OF mp [OF B [THEN conjunct2, THEN conjunct2, THEN conjunct2,
          THEN conjunct2, THEN conjunct2, THEN conjunct2] b7]]
    by simp
  have e: "strip ''   '' = []"
    by (rule strip_all_space [OF sp])
  show ?thesis
    using a1 c1 e c6 b4 b7 c7 unfolding sample_value_def by (intro conjI) simp_all
qed

section \<open>Properties of the query gateway\<close>

lemma CF_UserPurchasesResponse_Some:
  "CF_UserPurchasesResponse lax d = Some r \<Longrightarrow>
   map_of d ''user_id'' = Some (PStr (cfr_user_id r)) \<and>
   optional_str d ''username'' = Some (cfr_username r) \<and>
   Option.bind (map_of d ''total_purchases'') (validate_int lax) = Some (cfr_total_purchases r) \<and>
   required_float lax d ''total_spent'' = Some (cfr_total_spent r) \<and>
   (\<exists>vs. map_of d ''purchases'' = Some (PList vs) \<and>
      CF_Purchase_list lax vs = Some (cfr_purchases r))"
  by (auto simp: CF_UserPurchasesResponse_def required_str_Some
      split: option.splits pyval.splits)

lemma CF_UserPurchasesResponse_total:
  "CF_UserPurchasesResponse lax d = Some r \<Longrightarrow> map_of d ''total_purchases'' \<noteq> None"
  using CF_UserPurchasesResponse_Some [of lax d r] by (cases "map_of d ''total_purchases''") auto

text \<open>
  Against C6 as stated: an upstream call that fails with an exception other than a timeout
  or a connect error ends in the status 500, which is neither NotFound nor Unavailable.
\<close>

theorem gateway_other_failure_counterexample:
  "get_all_user_purchases no_lax (RequestRaises (OtherException ''Server disconnected''))
     ''user_123'' =
     Inl (HTTPException 500 ''Failed to retrieve purchase history'')"
  by (simp add: get_all_user_purchases_def)

text \<open>
  C6, amended. The gateway maps an upstream 404 to NotFound (404); an upstream timeout or
  connect error, and any upstream status other than 200 and 404, to Unavailable (503); any
  other exception of the upstream call, and a 200 response whose body is not a well-formed
  history payload, to an internal error (500). A well-formed 200 payload is passed through
  field by field, the purchase key \<^verbatim>\<open>_id\<close> read as \<^verbatim>\<open>id\<close>. Every call ends in the
  passed-through payload or in one of the three statuses 404, 503, 500.
\<close>

theorem gateway_outcomes:
  "(up = Response 404 body \<longrightarrow>
      get_all_user_purchases lax up uid =
        Inl (HTTPException 404 (''No purchases found for user_id: '' @ uid))) \<and>
   (up = TimeoutException \<or> up = ConnectError \<longrightarrow>
      (\<exists>detail. get_all_user_purchases lax up uid = Inl (HTTPException 503 detail))) \<and>
   (up = Response code body \<and> code \<noteq> 200 \<and> code \<noteq> 404 \<longrightarrow>
      get_all_user_purchases lax up uid =
        Inl (HTTPException 503 ''Unable to retrieve purchases at this time'')) \<and>
   (up = RequestRaises e \<longrightarrow>
      get_all_user_purchases lax up uid =
        Inl (HTTPException 500 ''Failed to retrieve purchase history'')) \<and>
   (up = Response 200 (Some (PDict d)) \<and> CF_UserPurchasesResponse lax d = Some r \<longrightarrow>
      get_all_user_purchases lax up uid = Inr r \<and>
      map_of d ''user_id'' = Some (PStr (cfr_user_id r)) \<and>
      optional_str d ''username'' = Some (cfr_username r) \<and>
      Option.bind (map_of d ''total_purchases'') (validate_int lax) =
        Some (cfr_total_purchases r) \<and>
      required_float lax d ''total_spent'' = Some (cfr_total_spent r) \<and>
      (\<exists>vs. map_of d ''purchases'' = Some (PList vs) \<and>
         CF_Purchase_list lax vs = Some (cfr_purchases r))) \<and>
   (up = Response 200 body \<and>
      (\<forall>d'. body = Some (PDict d') \<longrightarrow> CF_UserPurchasesResponse lax d' = None) \<longrightarrow>
      get_all_user_purchases lax up uid =
        Inl (HTTPException 500 ''Failed to retrieve purchase history'')) \<and>
   ((\<exists>d' r'. up = Response 200 (Some (PDict d')) \<and> CF_UserPurchasesResponse lax d' = Some r' \<and>
        get_all_user_purchases lax up uid = Inr r') \<or>
    (\<exists>status detail. get_all_user_purchases lax up uid = Inl (HTTPException status detail) \<and>
        (status = 404 \<or> status = 503 \<or> status = 500)))"
proof (intro conjI impI)
  assume "up = Response 404 body"
  then show "get_all_user_purchases lax up uid =
        Inl (HTTPException 404 (''No purchases found for user_id: '' @ uid))"
    by (simp add: get_all_user_purchases_def)
next
  assume "up = TimeoutException \<or> up = ConnectError"
  then show "\<exists>detail. get_all_user_purchases lax up uid = Inl (HTTPException 503 detail)"
    by (auto simp: get_all_user_purchases_def)
next
  assume "up = Response code body \<and> code \<noteq> 200 \<and> code \<noteq> 404"
  then show "get_all_user_purchases lax up uid =
        Inl (HTTPException 503 ''Unable to retrieve purchases at this time'')"
    by (simp add: get_all_user_purchases_def)
next
  assume "up = RequestRaises e"
  then show "get_all_user_purchases lax up uid =
        Inl (HTTPException 500 ''Failed to retrieve purchase history'')"
    by (simp add: get_all_user_purchases_def)
next
  assume h: "up = Response 200 (Some (PDict d)) \<and> CF_UserPurchasesResponse lax d = Some r"
  note t = CF_UserPurchasesResponse_total [OF conjunct2 [OF h]]
  note f = CF_UserPurchasesResponse_Some [OF conjunct2 [OF h]]
  show "get_all_user_purchases lax up uid = Inr r"
    using h t by (auto simp: get_all_user_purchases_def)
  show "map_of d ''user_id'' = Some (PStr (cfr_user_id r))" using f by simp
  show "optional_str d ''username'' = Some (cfr_username r)" using f by simp
  show "Option.bind (map_of d ''total_purchases'') (validate_int lax) =
        Some (cfr_total_purchases r)" using f by simp
  show "required_float lax d ''total_spent'' = Some (cfr_total_spent r)" using f by simp
  show "\<exists>vs. map_of d ''purchases'' = Some (PList vs) \<and>
         CF_Purchase_list lax vs = Some (cfr_purchases r)" using f by simp
next
  assume h: "up = Response 200 body \<and>
      (\<forall>d'. body = Some (PDict d') \<longrightarrow> CF_UserPurchasesResponse lax d' = None)"
  then show "get_all_user_purchases lax up uid =
        Inl (HTTPException 500 ''Failed to retrieve purchase history'')"
    by (auto simp: get_all_user_purchases_def split: option.splits pyval.splits)
next
  show "(\<exists>d' r'. up = Response 200 (Some (PDict d')) \<and> CF_UserPurchasesResponse lax d' = Some r' \<and>
        get_all_user_purchases lax up uid = Inr r') \<or>
    (\<exists>status detail. get_all_user_purchases lax up uid = Inl (HTTPException status detail) \<and>
        (status = 404 \<or> status = 503 \<or> status = 500))"
  proof (cases up)
    case (Response code body)
    show ?thesis
    proof (cases "code = 200")
      case False
      then show ?thesis using Response by (simp add: get_all_user_purchases_def)
    next
      case True
      show ?thesis
      proof (cases "\<exists>d' r'. body = Some (PDict d') \<and> CF_UserPurchasesResponse lax d' = Some r'")
        case True
        then obtain d' r' where b: "body = Some (PDict d')"
          and c: "CF_UserPurchasesResponse lax d' = Some r'" by blast
        have "get_all_user_purchases lax up uid = Inr r'"
          using Response \<open>code = 200\<close> b c CF_UserPurchasesResponse_total [OF c]
          by (auto simp: get_all_user_purchases_def)
        then show ?thesis using Response \<open>code = 200\<close> b c by blast
      next
        case False
        then have "get_all_user_purchases lax up uid =
            Inl (HTTPException 500 ''Failed to retrieve purchase history'')"
          using Response \<open>code = 200\<close>
          by (auto simp: get_all_user_purchases_def split: option.splits pyval.splits)
        then show ?thesis by simp
      qed
    qed
  qed (simp_all add: get_all_user_purchases_def)
qed

theorem gateway_outcomes_witness:
  "get_all_user_purchases no_lax (Response 404 None) ''nobody'' =
     Inl (HTTPException 404 ''No purchases found for user_id: nobody'') \<and>
   (\<exists>detail. get_all_user_purchases no_lax TimeoutException ''user_123'' =
      Inl (HTTPException 503 detail)) \<and>
   get_all_user_purchases no_lax (Response 500 None) ''user_123'' =
     Inl (HTTPException 503 ''Unable to retrieve purchases at this time'') \<and>
   get_all_user_purchases no_lax (RequestRaises (OtherException ''Server disconnected''))
     ''user_123'' = Inl (HTTPException 500 ''Failed to retrieve purchase history'') \<and>
   CF_UserPurchasesResponse no_lax sample_history_payload = Some sample_history \<and>
   get_all_user_purchases no_lax (Response 200 (Some (PDict sample_history_payload)))
     ''user_123'' = Inr sample_history \<and>
   get_all_user_purchases no_lax (Response 200 None) ''user_123'' =
     Inl (HTTPException 500 ''Failed to retrieve purchase history'')"
proof -
  let ?e = "OtherException ''Server disconnected''"
  have p: "CF_UserPurchasesResponse no_lax sample_history_payload = Some sample_history"
    by (simp add: CF_UserPurchasesResponse_def sample_history_payload_def sample_history_def
        required_str_def optional_str_def validate_str_def validate_int_def required_float_def
        validate_float_def CF_Purchase_def aliased_id_def no_lax_def)
  have 1: "get_all_user_purchases no_lax (Response 404 None) ''nobody'' =
     Inl (HTTPException 404 (''No purchases found for user_id: '' @ ''nobody''))"
    by (rule mp [OF conjunct1 [OF gateway_outcomes [where up = "Response 404 None" and
          body = None and lax = no_lax and uid = "''nobody''" and code = 404 and e = ?e and
          d = sample_history_payload and r = sample_history]] refl])
  have 2: "\<exists>detail. get_all_user_purchases no_lax TimeoutException ''user_123'' =
      Inl (HTTPException 503 detail)"
    by (rule mp [OF conjunct1 [OF conjunct2 [OF gateway_outcomes [where up = TimeoutException and
          body = None and lax = no_lax and uid = "''user_123''" and code = 404 and e = ?e and
          d = sample_history_payload and r = sample_history]]] disjI1 [OF refl]])
  have 3: "get_all_user_purchases no_lax (Response 500 None) ''user_123'' =
     Inl (HTTPException 503 ''Unable to retrieve purchases at this time'')"
    using gateway_outcomes [where up = "Response 500 None" and
          body = None and lax = no_lax and uid = "''user_123''" and code = 500 and e = ?e and
          d = sample_history_payload and r = sample_history, THEN conjunct2, THEN conjunct2,
          THEN conjunct1]
    by simp
  have 4: "get_all_user_purchases no_lax (RequestRaises ?e) ''user_123'' =
     Inl (HTTPException 500 ''Failed to retrieve purchase history'')"
    by (rule mp [OF gateway_outcomes [where up = "RequestRaises ?e" and
          body = None and lax = no_lax and uid = "''user_123''" and code = 500 and e = ?e and
          d = sample_history_payload and r = sample_history, THEN conjunct2, THEN conjunct2,
          THEN conjunct2, THEN conjunct1] refl])
  have 5: "get_all_user_purchases no_lax (Response 200 (Some (PDict sample_history_payload)))
     ''user_123'' = Inr sample_history"
    by (rule conjunct1 [OF mp [OF gateway_outcomes [where
          up = "Response 200 (Some (PDict sample_history_payload))" and
          body = None and lax = no_lax and uid = "''user_123''" and code = 500 and e = ?e and
          d = sample_history_payload and r = sample_history, THEN conjunct2, THEN conjunct2,
          THEN conjunct2, THEN conjunct2, THEN conjunct1] conjI [OF refl p]]])
  have 6: "get_all_user_purchases no_lax (Response 200 None) ''user_123'' =
     Inl (HTTPException 500 ''Failed to retrieve purchase history'')"
    using gateway_outcomes [where up = "Response 200 None" and
          body = None and lax = no_lax and uid = "''user_123''" and code = 500 and e = ?e and
          d = sample_history_payload and r = sample_history, THEN conjunct2, THEN conjunct2,
          THEN conjunct2, THEN conjunct2, THEN conjunct2, THEN conjunct1]
    by simp
  show ?thesis
    using 1 2 3 4 p 5 6 by simp
qed

section \<open>Properties of the float arithmetic\<close>

lemma bitlen_powi:
  assumes "0 < (x :: int)"
  shows "2 powi (bitlen x - 1) \<le> (of_int x :: rat) \<and> (of_int x :: rat) < 2 powi (bitlen x)"
proof -
  have b: "1 \<le> bitlen x" using assms by (auto simp: bitlen_alt_def)
  have "2 ^ nat (bitlen x - 1) \<le> x" "x < 2 ^ nat (bitlen x)"
    using bitlen_bounds [OF assms] by simp_all
  then have "(of_int (2 ^ nat (bitlen x - 1)) :: rat) \<le> of_int x"
    "(of_int x :: rat) < of_int (2 ^ nat (bitlen x))"
    by (simp_all only: of_int_le_iff of_int_less_iff)
  then show ?thesis
    using b by (simp add: power_int_nonneg_exp)
qed

lemma float_exponent_bounds:
  assumes "0 < a"
  shows "2 powi (float_exponent a) \<le> a \<and> a < 2 powi (float_exponent a + 1)"
proof -
  obtain p d where pd: "quotient_of a = (p, d)" by force
  have d: "0 < d" using quotient_of_denom_pos [OF pd] .
  have a: "a = of_int p / of_int d" using quotient_of_div [OF pd] .
  have p: "0 < p" using assms d unfolding a by (simp add: zero_less_divide_iff)
  define k where "k = bitlen p - bitlen d"
  note bp = bitlen_powi [OF p] and bd = bitlen_powi [OF d]
  have dpos: "(0 :: rat) < of_int d" using d by simp
  have ppos: "(0 :: rat) < of_int p" using p by simp
  have "a < 2 powi (bitlen p) / 2 powi (bitlen d - 1)"
    unfolding a using bp bd ppos
    by (intro frac_less) simp_all
  also have "\<dots> = 2 powi (k + 1)"
    by (simp add: k_def power_int_diff power_int_add)
  finally have up: "a < 2 powi (k + 1)" .
  have "2 powi (bitlen p - 1) / 2 powi (bitlen d) \<le> a"
    unfolding a using bp bd dpos ppos
    by (intro frac_le) simp_all
  moreover have "2 powi (bitlen p - 1) / 2 powi (bitlen d) = (2 :: rat) powi (k - 1)"
    by (simp add: k_def power_int_diff)
  ultimately have lo: "2 powi (k - 1) \<le> a" by simp
  have fe: "float_exponent a = (if 2 powi k \<le> a then k else k - 1)"
    by (simp add: float_exponent_def pd k_def Let_def)
  show ?thesis
    using up lo by (auto simp: fe)
qed

lemma float_exponent_eq:
  assumes "2 powi k \<le> a" and "a < 2 powi (k + 1)"
  shows "float_exponent a = k"
proof -
  have "(0 :: rat) < 2 powi k" by simp
  then have a: "0 < a" using assms(1) by linarith
  note b = float_exponent_bounds [OF a]
  have "(2 :: rat) powi k < 2 powi (float_exponent a + 1)" using assms(1) b by linarith
  then have 1: "k < float_exponent a + 1"
    by (metis power_int_increasing not_less one_le_numeral)
  have "(2 :: rat) powi (float_exponent a) < 2 powi (k + 1)" using assms(2) b by linarith
  then have 2: "float_exponent a < k + 1"
    by (metis power_int_increasing not_less one_le_numeral)
  show ?thesis using 1 2 by simp
qed

lemma floor_rat_numeral:
  "\<lfloor>(numeral a :: rat) / numeral b\<rfloor> = numeral a div numeral b"
  "\<lfloor>(1 :: rat) / numeral b\<rfloor> = 1 div numeral b"
  using floor_divide_of_int_eq [of "numeral a" "numeral b", where ?'a = rat]
    floor_divide_of_int_eq [of 1 "numeral b", where ?'a = rat]
  by simp_all

lemma round_half_even_of_int: "round_half_even (of_int n) = n"
  by (simp add: round_half_even_def)

text \<open>Rounding a number whose binary exponent \<open>k\<close> is known.\<close>

lemma float_round_eval:
  assumes "2 powi k \<le> \<bar>x\<bar>" and "\<bar>x\<bar> < 2 powi (k + 1)"
    and "e = max (k - 52) (- 1074)"
    and "r = of_int (round_half_even (x / 2 powi e)) * 2 powi e"
    and "\<bar>r\<bar> < 2 ^ 1024"
  shows "float_round x = Finite r"
proof -
  have "(0 :: rat) < 2 powi k" by simp
  then have "0 < \<bar>x\<bar>" using assms(1) by linarith
  then have x: "x \<noteq> 0" by simp
  have fe: "float_exponent \<bar>x\<bar> = k" using float_exponent_eq [OF assms(1,2)] .
  have "\<not> 2 ^ 1024 \<le> r" "\<not> r \<le> - (2 ^ 1024)" using assms(5) by auto
  then show ?thesis
    using x by (simp add: float_round_def fe Let_def assms(3) [symmetric] assms(4) [symmetric])
qed

text \<open>
  The floats: a number \<open>m \<cdot> 2\<^sup>j\<close> with \<open>\<bar>m\<bar> < 2\<^sup>5\<^sup>3\<close>, \<open>j \<ge> -1074\<close> and a modulus below
  \<open>2\<^sup>1\<^sup>0\<^sup>2\<^sup>4\<close> is rounded to itself.
\<close>

lemma float_round_exact:
  assumes "x = of_int m * 2 powi j" and "\<bar>m\<bar> < 2 ^ 53" and "- 1074 \<le> j" and "\<bar>x\<bar> < 2 ^ 1024"
  shows "float_round x = Finite x"
proof (cases "x = 0")
  case True
  then show ?thesis by (simp add: float_round_def)
next
  case False
  define k where "k = float_exponent \<bar>x\<bar>"
  define e where "e = max (k - 52) (- 1074)"
  have pos: "0 < \<bar>x\<bar>" using False by simp
  note b = float_exponent_bounds [OF pos, folded k_def]
  have "\<bar>x\<bar> = of_int \<bar>m\<bar> * 2 powi j"
    by (simp add: assms(1) abs_mult power_int_abs)
  also have "\<dots> < 2 ^ 53 * 2 powi j"
  proof -
    have "(of_int \<bar>m\<bar> :: rat) < of_int (2 ^ 53)" using assms(2) by (simp only: of_int_less_iff)
    then show ?thesis by (intro mult_strict_right_mono) simp_all
  qed
  also have "\<dots> = 2 powi (53 + j)"
    by (simp add: power_int_add)
  finally have "(2 :: rat) powi k < 2 powi (53 + j)" using b by linarith
  then have "k < 53 + j"
    by (metis power_int_increasing not_less one_le_numeral)
  then have ej: "e \<le> j" using assms(3) by (simp add: e_def)
  have "x / 2 powi e = of_int m * 2 powi (j - e)"
    by (simp add: assms(1) power_int_diff)
  also have "\<dots> = of_int (m * 2 ^ nat (j - e))"
    using ej by (simp add: power_int_nonneg_exp)
  finally have q: "x / 2 powi e = of_int (m * 2 ^ nat (j - e))" .
  have r: "of_int (round_half_even (x / 2 powi e)) * 2 powi e = x"
    unfolding q round_half_even_of_int unfolding q [symmetric] by simp
  show ?thesis
    by (rule float_round_eval [where k = k and e = e])
       (use b r e_def assms(4) in simp_all)
qed

lemma float_round_of_int:
  "\<bar>n\<bar> < 2 ^ 53 \<Longrightarrow> float_round (of_int n) = Finite (of_int n)"
proof -
  assume n: "\<bar>n\<bar> < 2 ^ 53"
  have "(of_int \<bar>n\<bar> :: rat) < of_int (2 ^ 53)" using n by (simp only: of_int_less_iff)
  also have "(of_int (2 ^ 53) :: rat) < 2 ^ 1024" by simp
  finally have "\<bar>of_int n :: rat\<bar> < 2 ^ 1024" by simp
  then show ?thesis
    using float_round_exact [where x = "of_int n" and m = n and j = 0] n by simp
qed

text \<open>Without compensation \<^verbatim>\<open>sum\<close> is the fold of the float addition.\<close>

lemma foldl_sum_step_plain:
  "foldl (sum_step False) (f, c) xs = (foldl float_add f xs, c)"
  by (induction xs arbitrary: f) (simp_all add: sum_step_def Let_def)

lemma float_sum_plain:
  "float_sum False xs = foldl float_add (Finite 0) (map float_round xs)"
  by (simp add: float_sum_def foldl_sum_step_plain sum_result_def)

lemma round_half_even_bounds:
  "of_int a \<le> q \<Longrightarrow> a \<le> round_half_even q"
  "q \<le> of_int b \<Longrightarrow> round_half_even q \<le> b"
proof -
  assume "of_int a \<le> q"
  then have "a \<le> \<lfloor>q\<rfloor>" by (simp add: le_floor_iff)
  then show "a \<le> round_half_even q"
    by (simp add: round_half_even_def Let_def)
next
  assume b: "q \<le> of_int b"
  have "\<lfloor>q\<rfloor> \<le> \<lfloor>of_int b :: rat\<rfloor>" using b by (rule floor_mono)
  then have f: "\<lfloor>q\<rfloor> \<le> b" by simp
  have "\<lfloor>q\<rfloor> + 1 \<le> b" if "q \<noteq> of_int \<lfloor>q\<rfloor>"
  proof -
    have "of_int \<lfloor>q\<rfloor> < q" using that of_int_floor_le [of q] by linarith
    then have "of_int \<lfloor>q\<rfloor> < (of_int b :: rat)" using b by linarith
    then have "\<lfloor>q\<rfloor> < b" by (simp only: of_int_less_iff)
    then show ?thesis by simp
  qed
  then show "round_half_even q \<le> b"
    using f by (auto simp: round_half_even_def Let_def)
qed

text \<open>A float is rounded to itself.\<close>

lemma float_round_float:
  assumes "float_round x = Finite y"
  shows "float_round y = Finite y"
proof (cases "x = 0")
  case True
  then show ?thesis using assms by (simp add: float_round_def)
next
  case False
  define k where "k = float_exponent \<bar>x\<bar>"
  define e where "e = max (k - 52) (- 1074)"
  define n where "n = round_half_even (x / 2 powi e)"
  have pos: "0 < \<bar>x\<bar>" using False by simp
  note b = float_exponent_bounds [OF pos, folded k_def]
  have fr: "float_round x =
      (if 2 ^ 1024 \<le> (of_int n * 2 powi e :: rat) then PosInf
       else if (of_int n * 2 powi e :: rat) \<le> - (2 ^ 1024) then NegInf
       else Finite (of_int n * 2 powi e))"
    using False by (simp add: float_round_def Let_def k_def e_def n_def)
  have y: "y = of_int n * 2 powi e" and yb: "\<bar>y\<bar> < 2 ^ 1024"
    using assms unfolding fr by (auto split: if_splits)
  have "\<bar>x\<bar> / 2 powi e \<le> \<bar>x\<bar> / 2 powi (k - 52)"
    by (intro divide_left_mono power_int_increasing mult_pos_pos) (simp_all add: e_def)
  also have "\<dots> < 2 powi (k + 1) / 2 powi (k - 52)"
    using b by (intro divide_strict_right_mono) simp_all
  also have "\<dots> = 2 ^ 53"
    by (simp add: power_int_diff [symmetric])
  finally have "\<bar>x\<bar> / 2 powi e < 2 ^ 53" .
  moreover have "\<bar>x / 2 powi e\<bar> = \<bar>x\<bar> / 2 powi e"
    by (simp add: abs_divide power_int_abs)
  ultimately have q: "\<bar>x / 2 powi e\<bar> < 2 ^ 53" by (simp only:)
  have q1: "x / 2 powi e \<le> of_int (2 ^ 53)" and q2: "of_int (- (2 ^ 53)) \<le> x / 2 powi e"
    using q unfolding abs_less_iff by (simp_all del: power_int_mono_iff)
  have "n \<le> 2 ^ 53" "- (2 ^ 53) \<le> n"
    unfolding n_def
    using round_half_even_bounds(2) [OF q1] round_half_even_bounds(1) [OF q2] by simp_all
  then have nb: "\<bar>n\<bar> \<le> 2 ^ 53" by simp
  have e: "- 1074 \<le> e" by (simp add: e_def)
  show ?thesis
  proof (cases "\<bar>n\<bar> < 2 ^ 53")
    case True
    show ?thesis
      by (rule float_round_exact [where m = n and j = e]) (use y True e yb in simp_all)
  next
    case False
    then have "n = 2 ^ 53 \<or> n = - (2 ^ 53)" using nb by auto
    then have "y = of_int (n div 2) * 2 powi (e + 1) \<and> \<bar>n div 2\<bar> < 2 ^ 53"
      unfolding y by (auto simp: power_int_add)
    then show ?thesis
      using float_round_exact [where x = y and m = "n div 2" and j = "e + 1"] e yb by simp
  qed
qed


lemma float_round_example:
  "float_round 1 = Finite 1"
  "float_round (5764607523034235 / 1152921504606846976) =
     Finite (5764607523034235 / 1152921504606846976)"
  "float_round (- (5629499534213 / 1125899906842624)) =
     Finite (- (5629499534213 / 1125899906842624))"
  "float_round (123 / 1152921504606846976) = Finite (123 / 1152921504606846976)"
  using float_round_of_int [of 1]
    float_round_exact [where x = "5764607523034235 / 2 ^ 60" and m = 5764607523034235
      and j = "- 60"]
    float_round_exact [where x = "- (5629499534213 / 2 ^ 50)" and m = "- 5629499534213"
      and j = "- 50"]
    float_round_exact [where x = "123 / 2 ^ 60" and m = 123 and j = "- 60"]
  by simp_all

lemma float_round_1_005:
  "float_round (1158686112129881211 / 1152921504606846976) =
     Finite (1131529406376837 / 1125899906842624)"
  by (rule float_round_eval [where k = 0 and e = "- 52"])
     (simp_all add: round_half_even_def Let_def floor_rat_numeral)


text \<open>
  The floats 1.0 and 0.005: their float sum is below 1.005 and is rounded to 1.0, where
  the exact sum of the two floats would be rounded to 1.01.
\<close>

lemma float_sum_example:
  "py_round2 (float_sum c [1, 5764607523034235 / 1152921504606846976]) = Finite 1"
proof -
  have z: "float_round 0 = Finite 0" by (simp add: float_round_def)
  have s: "float_sum c [1, 5764607523034235 / 1152921504606846976] =
      Finite (1131529406376837 / 1125899906842624)"
    by (cases c)
       (simp_all add: float_sum_def sum_step_def sum_result_def float_sub_def Let_def z
          float_round_example float_round_1_005)
  have f: "\<lfloor>28288235159420925 / 281474976710656 :: rat\<rfloor> = 100"
    by (simp add: floor_rat_numeral)
  have "round_decimal2 (1131529406376837 / 1125899906842624) = 1"
    by (simp add: round_decimal2_def round_half_even_def Let_def f)
  then show ?thesis
    unfolding s by (simp add: float_round_example)
qed

lemma exact_sum_example:
  "round_decimal2 (1 + 5764607523034235 / 1152921504606846976) = 101 / 100"
proof -
  have f: "\<lfloor>28967152803247030275 / 288230376151711744 :: rat\<rfloor> = 100"
    by (simp add: floor_rat_numeral)
  show ?thesis
    by (simp add: round_decimal2_def round_half_even_def Let_def f)
qed

section \<open>Properties of the consumer\<close>

lemma process_message_counts:
  "(case Purchase lax (cr_value m) of
      Inl e \<Rightarrow>
        c_messages_failed (process_message lax f now reply s m) = c_messages_failed s + 1 \<and>
        messages_processed (process_message lax f now reply s m) = messages_processed s
    | Inr p \<Rightarrow>
        (case fst (save_purchase f reply (db_manager s) p) of
           Inl e \<Rightarrow>
             c_messages_failed (process_message lax f now reply s m) = c_messages_failed s + 1 \<and>
             messages_processed (process_message lax f now reply s m) = messages_processed s
         | Inr purchase_id \<Rightarrow>
             c_messages_failed (process_message lax f now reply s m) = c_messages_failed s \<and>
             messages_processed (process_message lax f now reply s m) =
               messages_processed s + 1))"
  by (auto simp: process_message_def process_failed_def save_purchase_def Let_def
      split: sum.splits option.splits insert_reply.splits)

lemma process_message_step:
  "client_next lib (dl_record dl) = Inr m \<Longrightarrow>
   running (process_message lax f (dl_now dl) (dl_insert dl) s m) = running s \<and>
   messages_processed (process_message lax f (dl_now dl) (dl_insert dl) s m) =
     messages_processed s + (if persisted lib lax f dl then 1 else 0) \<and>
   c_messages_failed (process_message lax f (dl_now dl) (dl_insert dl) s m) =
     c_messages_failed s + (if persisted lib lax f dl then 0 else 1)"
  by (auto simp: process_message_def process_failed_def persisted_def save_purchase_def Let_def
      split: sum.splits option.splits insert_reply.splits)

text \<open>
  The poll loop counts the records in front of the first one whose value does not
  deserialize, each of them once: as processed when it is persisted, as failed otherwise.
\<close>

lemma consume_loop_counts:
  "running s \<Longrightarrow>
   messages_processed (consume_loop lib lax f s dls) =
     messages_processed s +
       length (filter (persisted lib lax f) (takeWhile (deserializes lib) dls)) \<and>
   c_messages_failed (consume_loop lib lax f s dls) =
     c_messages_failed s +
       length (filter (\<lambda>dl. \<not> persisted lib lax f dl) (takeWhile (deserializes lib) dls)) \<and>
   running (consume_loop lib lax f s dls)"
proof (induction dls arbitrary: s)
  case Nil
  then show ?case by simp
next
  case (Cons dl dls)
  show ?case
  proof (cases "client_next lib (dl_record dl)")
    case (Inl e)
    then show ?thesis using Cons.prems by (simp add: deserializes_def)
  next
    case (Inr m)
    note st = process_message_step [OF Inr, of lax f s]
    have r: "running (process_message lax f (dl_now dl) (dl_insert dl) s m)"
      using Cons.prems st by simp
    have d: "deserializes lib dl" using Inr by (simp add: deserializes_def)
    show ?thesis
      using Cons.prems Cons.IH [OF r] st Inr d by simp
  qed
qed

lemma consume_loop_counted:
  assumes "running s"
  shows "(messages_processed (consume_loop lib lax f s dls) - messages_processed s) +
     (c_messages_failed (consume_loop lib lax f s dls) - c_messages_failed s) =
     length (takeWhile (deserializes lib) dls)"
  using consume_loop_counts [OF assms, of lib lax f dls]
    sum_length_filter_compl [of "persisted lib lax f" "takeWhile (deserializes lib) dls"]
  by simp

text \<open>When every value deserializes, the two counters partition the stream.\<close>

lemma consume_loop_partition:
  assumes "running s" and "\<forall>dl \<in> set dls. deserializes lib dl"
  shows "messages_processed (consume_loop lib lax f s dls) =
       messages_processed s + length (filter (persisted lib lax f) dls) \<and>
     c_messages_failed (consume_loop lib lax f s dls) =
       c_messages_failed s + length (filter (\<lambda>dl. \<not> persisted lib lax f dl) dls) \<and>
     (messages_processed (consume_loop lib lax f s dls) - messages_processed s) +
       (c_messages_failed (consume_loop lib lax f s dls) - c_messages_failed s) = length dls"
proof -
  have t: "takeWhile (deserializes lib) dls = dls"
    using assms(2) by (simp add: takeWhile_eq_all_conv)
  show ?thesis
    using consume_loop_counts [OF assms(1), of lib lax f dls]
      consume_loop_counted [OF assms(1), of lib lax f dls]
    unfolding t by simp
qed

text \<open>Every document the consumer writes is the dump of a validated purchase.\<close>

lemma process_message_stores:
  assumes "\<forall>d \<in> set (collection (db_manager s)). \<exists>p. stored_purchase d p"
  shows "\<forall>d \<in> set (collection (db_manager (process_message lax f now reply s m))).
     \<exists>p. stored_purchase d p"
proof (cases "Purchase lax (cr_value m)")
  case (Inl e)
  then show ?thesis
    using assms by (simp add: process_message_def process_failed_def)
next
  case (Inr p)
  then have "\<exists>d. Purchase_fields lax d = Inr p"
    by (auto simp: Purchase_def split: pyval.splits)
  then have pos: "0 < price p"
    using Purchase_fields_Inr required_float_gt0_Some by blast
  have sp: "stored_purchase \<lparr>doc_id = oid, doc_timestamp_dt = dt, doc_fields = model_dump p\<rparr> p"
    for oid dt
    using pos by (simp add: stored_purchase_def)
  show ?thesis
    using assms Inr sp
    by (auto simp: process_message_def process_failed_def save_purchase_def Let_def
        split: option.splits insert_reply.splits)
qed

lemma consume_loop_stores:
  "\<forall>d \<in> set (collection (db_manager s)). \<exists>p. stored_purchase d p \<Longrightarrow>
   \<forall>d \<in> set (collection (db_manager (consume_loop lib lax f s dls))). \<exists>p. stored_purchase d p"
proof (induction dls arbitrary: s)
  case Nil
  then show ?case by simp
next
  case (Cons dl dls)
  show ?case
  proof (cases "client_next lib (dl_record dl)")
    case (Inl e)
    then show ?thesis using Cons.prems by simp
  next
    case (Inr m)
    show ?thesis
      using Cons.prems Inr
        Cons.IH [OF process_message_stores [OF Cons.prems, of lax f "dl_now dl" "dl_insert dl" m]]
      by simp
  qed
qed

lemma decode_ascii:
  assumes "\<forall>c \<in> set s. (of_char c :: nat) < 128"
  shows "bytes_decode sample_json (encode_utf8 s) = Inr s"
proof -
  have e: "encode_utf8 s = map of_char s" using encode_utf8_ascii [OF assms] .
  have "list_all (\<lambda>n. n < 128) (map of_char s :: nat list)"
    using assms by (simp add: list_all_iff)
  moreover have "map char_of (map of_char s :: nat list) = s"
    by (simp add: map_idI)
  ultimately show ?thesis
    by (simp add: sample_json_def e)
qed

text \<open>
  C1. A stream of four records on a running consumer: a valid purchase, a JSON object that
  is not a purchase, bytes that are not JSON, and the valid purchase again. The first is
  persisted and counted as processed, the second is counted as failed. The value of the
  third raises in the deserializer, which the client runs inside the iteration of the poll
  loop and not inside \<^verbatim>\<open>_process_message\<close>: the handler around the loop logs the exception
  and the loop is over. The third record is counted in neither counter and the fourth is
  never read, so after four records the counters add up to two; the consumer still reports
  that it is running.
\<close>

theorem consume_loop_undecodable_payload:
  "length sample_stream = 4 \<and>
   messages_processed
     (consume_loop sample_json no_lax sample_fromisoformat
        (snd (KafkaConsumer_start Started sample_consumer)) sample_stream) = 1 \<and>
   c_messages_failed
     (consume_loop sample_json no_lax sample_fromisoformat
        (snd (KafkaConsumer_start Started sample_consumer)) sample_stream) = 1 \<and>
   map doc_id (collection (db_manager
     (consume_loop sample_json no_lax sample_fromisoformat
        (snd (KafkaConsumer_start Started sample_consumer)) sample_stream))) =
     [''507f1f77bcf86cd799439011''] \<and>
   is_running
     (consume_loop sample_json no_lax sample_fromisoformat
        (snd (KafkaConsumer_start Started sample_consumer)) sample_stream)"
proof -
  let ?s = "snd (KafkaConsumer_start Started sample_consumer)"
  let ?d1 = "sample_delivery 42 sample_text (Inserted ''507f1f77bcf86cd799439011'')"
  let ?d2 = "sample_delivery 43 ''{\"username\": \"test_user\"}''
      (Inserted ''507f1f77bcf86cd799439012'')"
  let ?d3 = "sample_delivery 44 ''not json'' (Inserted ''507f1f77bcf86cd799439013'')"
  let ?d4 = "sample_delivery 45 sample_text (Inserted ''507f1f77bcf86cd799439014'')"
  have s: "?s = sample_consumer\<lparr>consumer := Some \<lparr>ac_topic = ''test-purchases'',
      ac_group_id = ''test-group''\<rparr>, running := True, consumer_task := True\<rparr>"
    by (simp add: KafkaConsumer_start_def sample_consumer_def KafkaConsumer_init_def)
  have b1: "bytes_decode sample_json (encode_utf8 sample_text) = Inr sample_text"
    by (rule decode_ascii) (simp add: sample_text_def)
  have b2: "bytes_decode sample_json (encode_utf8 ''{\"username\": \"test_user\"}'') =
      Inr ''{\"username\": \"test_user\"}''"
    by (rule decode_ascii) simp
  have b3: "bytes_decode sample_json (encode_utf8 ''not json'') = Inr ''not json''"
    by (rule decode_ascii) simp
  have t2: "''{\"username\": \"test_user\"}'' \<noteq> sample_text"
    by (simp add: sample_text_def)
  have t3: "''not json'' \<noteq> sample_text"
    by (simp add: sample_text_def)
  have c1: "client_next sample_json (dl_record ?d1) =
      Inr \<lparr>cr_partition = 0, cr_offset = 42, cr_key = Some (encode_utf8 ''user_123''),
           cr_value = sample_value\<rparr>"
    by (simp add: client_next_def value_deserializer_def sample_delivery_def b1)
       (simp add: sample_json_def)
  have c2: "client_next sample_json (dl_record ?d2) =
      Inr \<lparr>cr_partition = 0, cr_offset = 43, cr_key = Some (encode_utf8 ''user_123''),
           cr_value = PDict [(''username'', PStr ''test_user'')]\<rparr>"
    by (simp add: client_next_def value_deserializer_def sample_delivery_def b2)
       (simp add: sample_json_def t2)
  have c3: "client_next sample_json (dl_record ?d3) = Inl (ValueError ''Expecting value: line 1 column 1 (char 0)'')"
    by (simp add: client_next_def value_deserializer_def sample_delivery_def b3)
       (simp add: sample_json_def t3)
  have v: "Purchase no_lax sample_value =
      Inr \<lparr>username = ''test_user'', user_id = ''user_123'', item_name = ''Test Product'',
           price = 9999 / 100, timestamp = ''2025-12-15T10:30:00Z''\<rparr>"
    by (simp add: Purchase_def Purchase_fields_def sample_value_def required_str_def
        required_float_gt0_def required_float_def validate_str_def validate_float_def)
  have w: "isl (Purchase no_lax (PDict [(''username'', PStr ''test_user'')]))"
    by (simp add: Purchase_def Purchase_fields_def required_str_def validate_str_def)
  define s1 where "s1 = process_message no_lax sample_fromisoformat (dl_now ?d1) (dl_insert ?d1) ?s
      \<lparr>cr_partition = 0, cr_offset = 42, cr_key = Some (encode_utf8 ''user_123''),
       cr_value = sample_value\<rparr>"
  define s2 where "s2 = process_message no_lax sample_fromisoformat (dl_now ?d2) (dl_insert ?d2) s1
      \<lparr>cr_partition = 0, cr_offset = 43, cr_key = Some (encode_utf8 ''user_123''),
       cr_value = PDict [(''username'', PStr ''test_user'')]\<rparr>"
  have s1: "running s1" "messages_processed s1 = 1" "c_messages_failed s1 = 0"
    "map doc_id (collection (db_manager s1)) = [''507f1f77bcf86cd799439011'']"
    "consumer s1 \<noteq> None"
    unfolding s1_def s
    by (simp_all add: process_message_def v save_purchase_def replace_Z_def
        sample_fromisoformat_def sample_delivery_def sample_consumer_def KafkaConsumer_init_def)
  have s2: "running s2" "messages_processed s2 = 1" "c_messages_failed s2 = 1"
    "map doc_id (collection (db_manager s2)) = [''507f1f77bcf86cd799439011'']"
    "consumer s2 \<noteq> None"
    unfolding s2_def using s1 w
    by (auto simp: process_message_def process_failed_def split: sum.splits)
  have r: "running ?s" unfolding s by simp
  have "consume_loop sample_json no_lax sample_fromisoformat ?s sample_stream = s2"
    unfolding sample_stream_def
    using r s1(1) s2(1) by (simp add: c1 c2 c3 s1_def [symmetric] s2_def [symmetric])
  then show ?thesis
    using s2 by (simp add: sample_stream_def is_running_def)
qed

section \<open>Properties of the history endpoint\<close>

lemma stored_fields:
  assumes "stored_purchase d p"
  shows "map_of (doc_dict d) ''price'' = Some (PNum (price p))"
    and "map_of (doc_dict d) ''username'' = Some (PStr (username p))"
    and "doc_price d = price p"
    and "PurchaseResponse lax (doc_dict d) =
           Inr (purchase.extend p (purchase_response.fields (doc_id d)))"
    and "map_of (doc_fields d) ''user_id'' = Some (PStr (user_id p))"
  using assms
  by (simp_all add: stored_purchase_def doc_dict_def model_dump_def doc_price_def
      PurchaseResponse_def Purchase_fields_def required_str_def required_float_gt0_def
      required_float_def validate_str_def validate_float_def aliased_id_def
      purchase.extend_def purchase_response.fields_def purchase.defs)

lemma sum_prices_stored:
  "\<forall>d \<in> set docs. \<exists>p. stored_purchase d p \<Longrightarrow>
   sum_prices c acc (map doc_dict docs) =
     Inr (sum_result c (foldl (sum_step c) acc (map float_round (map doc_price docs))))"
proof (induction docs arbitrary: acc)
  case Nil
  then show ?case by simp
next
  case (Cons d docs)
  obtain p where p: "stored_purchase d p" using Cons.prems by auto
  have r: "\<forall>d \<in> set docs. \<exists>p. stored_purchase d p" using Cons.prems by simp
  show ?case
    using Cons.IH [OF r, of "sum_step c acc (float_round (price p))"] stored_fields(1,3) [OF p]
    by simp
qed

lemma PurchaseResponse_list_stored:
  "\<forall>d \<in> set docs. \<exists>p. stored_purchase d p \<Longrightarrow>
   \<exists>rs. PurchaseResponse_list lax (map doc_dict docs) = Inr rs \<and>
     map pr_id rs = map doc_id docs \<and> map price rs = map doc_price docs"
proof (induction docs)
  case Nil
  then show ?case by simp
next
  case (Cons d docs)
  obtain p where p: "stored_purchase d p" using Cons.prems by auto
  have r: "\<forall>d \<in> set docs. \<exists>p. stored_purchase d p" using Cons.prems by simp
  obtain rs where rs: "PurchaseResponse_list lax (map doc_dict docs) = Inr rs"
    "map pr_id rs = map doc_id docs" "map price rs = map doc_price docs"
    using Cons.IH [OF r] by blast
  show ?case
    using rs stored_fields(3) [OF p] stored_fields(4) [OF p, of lax]
    by (simp add: purchase.extend_def purchase_response.fields_def purchase.defs)
qed

lemma find_sorted_props:
  "set (find_sorted db uid) = {d \<in> set (collection db). user_id_matches uid d} \<and>
   length (find_sorted db uid) = length (filter (user_id_matches uid) (collection db)) \<and>
   sorted_wrt (\<lambda>a b. doc_timestamp_dt b \<le> doc_timestamp_dt a) (find_sorted db uid)"
proof -
  have "sorted (map (\<lambda>d. - doc_timestamp_dt d) (find_sorted db uid))"
    by (simp add: find_sorted_def)
  then have "sorted_wrt (\<lambda>a b. doc_timestamp_dt b \<le> doc_timestamp_dt a) (find_sorted db uid)"
    by (simp add: sorted_map sorted_wrt_iff_nth_less)
  then show ?thesis by (auto simp: find_sorted_def)
qed

lemma history_response:
  assumes "\<forall>d \<in> set (collection db). user_id_matches uid d \<longrightarrow> (\<exists>p. stored_purchase d p)"
    and "\<exists>d \<in> set (collection db). user_id_matches uid d"
  shows "\<exists>r first rest p.
     get_user_purchases lax c None db uid = Inr r \<and>
     find_sorted db uid = first # rest \<and> stored_purchase first p \<and>
     upr_user_id r = uid \<and> upr_username r = Some (username p) \<and>
     total_purchases r = int (length (find_sorted db uid)) \<and>
     total_spent r = py_round2 (float_sum c (map doc_price (find_sorted db uid))) \<and>
     map pr_id (purchases r) = map doc_id (find_sorted db uid) \<and>
     map price (purchases r) = map doc_price (find_sorted db uid)"
proof -
  note fs = find_sorted_props [of db uid]
  have all: "\<forall>d \<in> set (find_sorted db uid). \<exists>p. stored_purchase d p"
    using assms(1) fs by auto
  have "set (find_sorted db uid) \<noteq> {}"
    using assms(2) fs by auto
  then obtain first rest where fr: "find_sorted db uid = first # rest"
    by (cases "find_sorted db uid") auto
  obtain p where p: "stored_purchase first p"
    using all fr by auto
  obtain rs where rs: "PurchaseResponse_list lax (map doc_dict (find_sorted db uid)) = Inr rs"
    "map pr_id rs = map doc_id (find_sorted db uid)"
    "map price rs = map doc_price (find_sorted db uid)"
    using PurchaseResponse_list_stored [OF all] by blast
  have sp: "sum_prices c (Finite 0, Finite 0) (map doc_dict (find_sorted db uid)) =
      Inr (float_sum c (map doc_price (find_sorted db uid)))"
    using sum_prices_stored [OF all, of c "(Finite 0, Finite 0)"] by (simp add: float_sum_def)
  let ?r = "\<lparr>upr_user_id = uid, upr_username = Some (username p),
           total_purchases = int (length (find_sorted db uid)),
           total_spent = py_round2 (float_sum c (map doc_price (find_sorted db uid))),
           purchases = rs\<rparr>"
  have g: "get_user_purchases lax c None db uid = Inr ?r"
    using rs(1) sp stored_fields(2) [OF p]
    unfolding get_user_purchases_def DatabaseManager_get_user_purchases_def fr
    by (simp add: optional_str_def newest_username_def)
  have "get_user_purchases lax c None db uid = Inr ?r \<and>
     find_sorted db uid = first # rest \<and> stored_purchase first p \<and>
     upr_user_id ?r = uid \<and> upr_username ?r = Some (username p) \<and>
     total_purchases ?r = int (length (find_sorted db uid)) \<and>
     total_spent ?r = py_round2 (float_sum c (map doc_price (find_sorted db uid))) \<and>
     map pr_id (purchases ?r) = map doc_id (find_sorted db uid) \<and>
     map price (purchases ?r) = map doc_price (find_sorted db uid)"
    using g fr p rs(2,3) by simp
  then show ?thesis by (intro exI)
qed

text \<open>The floats of the examples: 10, 20 and 30, and the float 0.001.\<close>

lemma float_round_samples:
  "float_round 0 = Finite 0"
  "float_round 10 = Finite 10"
  "float_round 20 = Finite 20"
  "float_round 30 = Finite 30"
  "float_round (- 10) = Finite (- 10)"
  "float_round (1152921504606847 / 1152921504606846976) =
     Finite (1152921504606847 / 1152921504606846976)"
  using float_round_of_int [of 10] float_round_of_int [of 20] float_round_of_int [of 30]
    float_round_of_int [of "- 10"]
    float_round_exact [where x = "1152921504606847 / 2 ^ 60" and m = 1152921504606847
      and j = "- 60"]
  by (simp_all add: float_round_def)

lemma float_literal_0_001: "float_round (1 / 1000) = Finite (1152921504606847 / 2 ^ 60)"
  by (rule float_round_eval [where k = "- 10" and e = "- 62"])
     (simp_all add: round_half_even_def Let_def floor_rat_numeral)

lemma float_sum_20_10: "float_sum c [20, 10] = Finite 30"
  by (cases c)
     (simp_all add: float_sum_def sum_step_def sum_result_def float_sub_def Let_def
        float_round_samples)

lemma float_sum_0_001:
  "float_sum c [1152921504606847 / 1152921504606846976] =
     Finite (1152921504606847 / 1152921504606846976)"
  by (cases c)
     (simp_all add: float_sum_def sum_step_def sum_result_def float_sub_def Let_def
        float_round_samples)

lemma py_round2_samples:
  "py_round2 (Finite 30) = Finite 30"
  "py_round2 (Finite (1152921504606847 / 1152921504606846976)) = Finite 0"
  by (simp_all add: round_decimal2_def round_half_even_def Let_def floor_rat_numeral
      float_round_samples)

text \<open>
  Against C7 as stated: one persisted purchase priced 0.001 (the float written 0.001 is
  \<open>1152921504606847 / 2\<^sup>6\<^sup>0\<close>); the history reports \<^verbatim>\<open>total_spent\<close> 0.0, since the endpoint
  returns \<^verbatim>\<open>round(total_spent, 2)\<close>.
\<close>

theorem history_rounds_total_counterexample:
  "\<forall>compensated.
     get_user_purchases no_lax compensated None
       (snd (save_purchase sample_fromisoformat (Inserted ''507f1f77bcf86cd799439011'')
          \<lparr>collection = []\<rparr>
          (scenario_purchase ''Sticker'' (1152921504606847 / 2 ^ 60) ''2025-12-15T10:00:00Z'')))
       ''user_123'' =
       Inr \<lparr>upr_user_id = ''user_123'', upr_username = Some ''john_doe'', total_purchases = 1,
            total_spent = Finite 0,
            purchases =
              [purchase.extend
                 (scenario_purchase ''Sticker'' (1152921504606847 / 2 ^ 60)
                    ''2025-12-15T10:00:00Z'')
                 (purchase_response.fields ''507f1f77bcf86cd799439011'')]\<rparr>"
proof
  fix compensated
  let ?p = "scenario_purchase ''Sticker'' (1152921504606847 / 2 ^ 60) ''2025-12-15T10:00:00Z''"
  let ?d = "\<lparr>doc_id = ''507f1f77bcf86cd799439011'', doc_timestamp_dt = 1765792800,
      doc_fields = model_dump ?p\<rparr>"
  let ?db = "snd (save_purchase sample_fromisoformat (Inserted ''507f1f77bcf86cd799439011'')
      \<lparr>collection = []\<rparr> ?p)"
  have coll: "collection ?db = [?d]"
    by (simp add: save_purchase_def scenario_purchase_def replace_Z_def sample_fromisoformat_def)
  have sp: "stored_purchase ?d ?p"
    by (simp add: stored_purchase_def scenario_purchase_def)
  have m: "user_id_matches ''user_123'' ?d"
    by (simp add: user_id_matches_def model_dump_def scenario_purchase_def)
  have fs: "find_sorted ?db ''user_123'' = [?d]"
    unfolding find_sorted_def coll using m by simp
  have "sum_prices compensated (Finite 0, Finite 0) [doc_dict ?d] =
      Inr (float_sum compensated [1152921504606847 / 1152921504606846976])"
    using stored_fields(1) [OF sp] by (simp add: float_sum_def scenario_purchase_def)
  then have s: "sum_prices compensated (Finite 0, Finite 0) [doc_dict ?d] =
      Inr (Finite (1152921504606847 / 1152921504606846976))"
    by (simp only: float_sum_0_001)
  show "get_user_purchases no_lax compensated None ?db ''user_123'' =
       Inr \<lparr>upr_user_id = ''user_123'', upr_username = Some ''john_doe'', total_purchases = 1,
            total_spent = Finite 0,
            purchases = [purchase.extend ?p (purchase_response.fields ''507f1f77bcf86cd799439011'')]\<rparr>"
    unfolding get_user_purchases_def DatabaseManager_get_user_purchases_def fs
    using s stored_fields(2) [OF sp] stored_fields(4) [OF sp, of no_lax]
    by (simp add: py_round2_samples newest_username_def optional_str_def scenario_purchase_def
        del: py_round2.simps)
qed

text \<open>
  C7, amended. When every document of the user in the collection is a purchase written by
  \<^verbatim>\<open>save_purchase\<close> and there is at least one, the history endpoint answers, with
  \<^verbatim>\<open>total_purchases\<close> the number of the user's documents, with the purchases in the order
  of the query (the user's documents by descending \<^verbatim>\<open>timestamp_dt\<close>, newest first), and with
  \<^verbatim>\<open>total_spent\<close> the float sum of their prices, added in that order, rounded to two
  decimals.
\<close>

theorem history_totals:
  assumes "\<forall>d \<in> set (collection db). user_id_matches uid d \<longrightarrow> (\<exists>p. stored_purchase d p)"
    and "\<exists>d \<in> set (collection db). user_id_matches uid d"
  shows "\<exists>r. get_user_purchases lax compensated None db uid = Inr r \<and>
     total_purchases r = int (length (filter (user_id_matches uid) (collection db))) \<and>
     total_spent r = py_round2 (float_sum compensated (map price (purchases r))) \<and>
     map pr_id (purchases r) = map doc_id (find_sorted db uid) \<and>
     map price (purchases r) = map doc_price (find_sorted db uid) \<and>
     set (find_sorted db uid) = {d \<in> set (collection db). user_id_matches uid d} \<and>
     sorted_wrt (\<lambda>a b. doc_timestamp_dt b \<le> doc_timestamp_dt a) (find_sorted db uid)"
proof -
  obtain r where r: "get_user_purchases lax compensated None db uid = Inr r"
    "total_purchases r = int (length (find_sorted db uid))"
    "total_spent r = py_round2 (float_sum compensated (map doc_price (find_sorted db uid)))"
    "map pr_id (purchases r) = map doc_id (find_sorted db uid)"
    "map price (purchases r) = map doc_price (find_sorted db uid)"
    using history_response [OF assms, of lax compensated] by blast
  show ?thesis
    using r find_sorted_props [of db uid] by auto
qed

theorem history_totals_witness:
  "length (filter (user_id_matches ''user_123'') (collection scenario_db)) = 2 \<and>
   (\<exists>r. get_user_purchases no_lax False None scenario_db ''user_123'' = Inr r \<and>
      total_purchases r = 2 \<and> total_spent r = Finite 30 \<and>
      map pr_id (purchases r) = [''507f1f77bcf86cd799439012'', ''507f1f77bcf86cd799439011''] \<and>
      map price (purchases r) = [20, 10]) \<and>
   (\<exists>r. get_user_purchases no_lax True None scenario_db ''user_123'' = Inr r \<and>
      total_purchases r = 2 \<and> total_spent r = Finite 30 \<and>
      map pr_id (purchases r) = [''507f1f77bcf86cd799439012'', ''507f1f77bcf86cd799439011''] \<and>
      map price (purchases r) = [20, 10])"
proof -
  let ?p1 = "scenario_purchase ''Mouse'' 10 ''2025-12-15T10:00:00Z''"
  let ?p2 = "scenario_purchase ''Keyboard'' 20 ''2025-12-15T11:00:00Z''"
  let ?d1 = "\<lparr>doc_id = ''507f1f77bcf86cd799439011'', doc_timestamp_dt = 1765792800,
      doc_fields = model_dump ?p1\<rparr>"
  let ?d2 = "\<lparr>doc_id = ''507f1f77bcf86cd799439012'', doc_timestamp_dt = 1765796400,
      doc_fields = model_dump ?p2\<rparr>"
  have coll: "collection scenario_db = [?d1, ?d2]"
    by (simp add: scenario_db_def save_purchase_def scenario_purchase_def replace_Z_def
        sample_fromisoformat_def)
  have s1: "stored_purchase ?d1 ?p1" and s2: "stored_purchase ?d2 ?p2"
    by (simp_all add: stored_purchase_def scenario_purchase_def)
  have m: "user_id_matches ''user_123'' ?d1" "user_id_matches ''user_123'' ?d2"
    by (simp_all add: user_id_matches_def model_dump_def scenario_purchase_def)
  have h1: "\<forall>d \<in> set (collection scenario_db).
      user_id_matches ''user_123'' d \<longrightarrow> (\<exists>p. stored_purchase d p)"
    unfolding coll using s1 s2 by auto
  have h2: "\<exists>d \<in> set (collection scenario_db). user_id_matches ''user_123'' d"
    unfolding coll using m by simp
  have f: "filter (user_id_matches ''user_123'') (collection scenario_db) = [?d1, ?d2]"
    unfolding coll using m by simp
  have fs: "find_sorted scenario_db ''user_123'' = [?d2, ?d1]"
    unfolding find_sorted_def f by simp
  have pr: "doc_price ?d1 = 10" "doc_price ?d2 = 20"
    by (simp_all add: doc_price_def model_dump_def scenario_purchase_def)
  have w: "\<exists>r. get_user_purchases no_lax c None scenario_db ''user_123'' = Inr r \<and>
      total_purchases r = 2 \<and> total_spent r = Finite 30 \<and>
      map pr_id (purchases r) = [''507f1f77bcf86cd799439012'', ''507f1f77bcf86cd799439011''] \<and>
      map price (purchases r) = [20, 10]" for c
  proof -
    obtain r where r: "get_user_purchases no_lax c None scenario_db ''user_123'' = Inr r"
      "total_purchases r =
         int (length (filter (user_id_matches ''user_123'') (collection scenario_db)))"
      "total_spent r = py_round2 (float_sum c (map price (purchases r)))"
      "map pr_id (purchases r) = map doc_id (find_sorted scenario_db ''user_123'')"
      "map price (purchases r) = map doc_price (find_sorted scenario_db ''user_123'')"
      using history_totals [OF h1 h2, of no_lax c] by blast
    have p: "map price (purchases r) = [20, 10]"
      using r(5) unfolding fs by (simp add: pr)
    have "get_user_purchases no_lax c None scenario_db ''user_123'' = Inr r \<and>
        total_purchases r = 2 \<and> total_spent r = Finite 30 \<and>
        map pr_id (purchases r) = [''507f1f77bcf86cd799439012'', ''507f1f77bcf86cd799439011''] \<and>
        map price (purchases r) = [20, 10]"
      using r(1,2,4) p unfolding f fs r(3) p
      by (simp add: float_sum_20_10 py_round2_samples del: py_round2.simps)
    then show ?thesis by (intro exI [of _ r])
  qed
  show ?thesis
    using f w [of False] w [of True] by (intro conjI) simp_all
qed

lemma history_document_without_username:
  "get_user_purchases no_lax compensated None
     \<lparr>collection =
        [\<lparr>doc_id = ''507f1f77bcf86cd799439011'', doc_timestamp_dt = 1765794600,
          doc_fields =
            [(''user_id'', PStr ''user_123''), (''item_name'', PStr ''Laptop''),
             (''price'', PNum 10), (''timestamp'', PStr ''2025-12-15T10:30:00Z'')]\<rparr>]\<rparr>
     ''user_123'' =
     Inl (HTTPException 500 ''Internal server error while retrieving purchases'')"
  by (simp add: get_user_purchases_def DatabaseManager_get_user_purchases_def find_sorted_def
      user_id_matches_def doc_dict_def PurchaseResponse_def Purchase_fields_def
      required_str_def split: sum.splits)



end
